theory Spec2Isabelle
  imports Complex_Main "HOL-Library.Word" "HOL-Library.Char_ord" "HOL-Library.List_Lexorder"
begin

section \<open>The process exporter: data model\<close>

text \<open>
  The program (\<^verbatim>\<open>src/main.go\<close>) keeps three Prometheus gauge vectors, each with the
  single label \<^verbatim>\<open>process\<close>, and a map from process name to the time of the last
  successful sample. A goroutine calls \<^verbatim>\<open>updateMetrics\<close> on a 5 second ticker, another
  one calls \<^verbatim>\<open>printMetrics\<close>; both run under the same mutex, so each call is one atomic
  step on the shared state.

  Everything the code reads from outside (the process table, the per-process readers, the
  clock, the other collectors of the default registry) is an explicit input of the model.
  The three library calls the program's behaviour rests on are modelled from the
  library's behaviour: \<^verbatim>\<open>WithLabelValues(n).Set(v)\<close>, which panics on a label value that
  is not valid UTF-8, \<^verbatim>\<open>DefaultGatherer.Gather()\<close> and \<^verbatim>\<open>promhttp.Handler()\<close>.
\<close>

subsection \<open>Values\<close>

text \<open>
  A Go \<^verbatim>\<open>error\<close> is represented by its message. A \<^verbatim>\<open>float64\<close> is only ever stored and
  printed, never computed with: the finite values are reals, the three special values are
  kept apart. \<^verbatim>\<open>float64(0)\<close> and \<^verbatim>\<open>float64(pid)\<close> are exact. \<^verbatim>\<open>time.Time\<close> and
  \<^verbatim>\<open>time.Duration\<close> are nanosecond counts; the saturation of \<^verbatim>\<open>Time.Sub\<close> at the ends
  of the 64 bit range does not change a comparison against five seconds.
\<close>

datatype error = Error string

datatype float64 = Finite real | PosInf | NegInf | NaN

type_synonym time = int

definition Second :: int where
  "Second = 1000000000"

subsection \<open>The operating system as seen by one loop iteration\<close>

text \<open>
  One entry of \<^verbatim>\<open>process.Processes()\<close>: the field \<^verbatim>\<open>Pid\<close> (an \<^verbatim>\<open>int32\<close>) and the result
  pair of the method \<^verbatim>\<open>Name()\<close>.
\<close>

record Process =
  Pid :: "32 word"
  Name :: "string \<times> error option"

text \<open>
  Each iteration of the loop in \<^verbatim>\<open>updateMetrics\<close> makes at most one call of each of
  \<^verbatim>\<open>process.Processes\<close>, \<^verbatim>\<open>process.NewProcess\<close>, \<^verbatim>\<open>CPUPercent\<close>, \<^verbatim>\<open>MemoryPercent\<close>,
  \<^verbatim>\<open>time.Since\<close> and \<^verbatim>\<open>time.Now\<close>. An \<open>os_view\<close> holds what these calls answer during
  that iteration; a \<open>world\<close> gives the view of the i-th iteration of a pass, so the
  answers may change from one name to the next. \<^verbatim>\<open>NewProcess\<close> answers with a handle
  for the pid it was given or with an error; the handle is represented by that pid.
  \<^verbatim>\<open>MemoryPercent\<close> answers a \<^verbatim>\<open>float32\<close>, which \<^verbatim>\<open>float64(memoryPercent)\<close> converts
  exactly: the view holds the converted value. \<open>SinceClock\<close> is the clock read inside
  \<^verbatim>\<open>time.Since\<close>, \<open>Now\<close> the one of \<^verbatim>\<open>time.Now()\<close> after a successful sample.
\<close>

record os_view =
  Processes :: "error + Process list"
  NewProcess :: "32 word \<Rightarrow> error option"
  CPUPercent :: "32 word \<Rightarrow> error + float64"
  MemoryPercent :: "32 word \<Rightarrow> error + float64"
  SinceClock :: time
  Now :: time

type_synonym world = "nat \<Rightarrow> os_view"

definition later :: "world \<Rightarrow> world" where
  "later w = (\<lambda>i. w (Suc i))"

subsection \<open>Console output\<close>

text \<open>One constructor for each \<^verbatim>\<open>fmt.Printf\<close>/\<^verbatim>\<open>fmt.Println\<close> of the program.\<close>

record LabelPair =
  LName :: string
  LValue :: string

record Metric =
  Label :: "LabelPair list"
  Gauge :: "float64 option"

record MetricFamily =
  FName :: string
  Metrics :: "Metric list"

datatype printed =
    ErrorGettingProcesses error
  | ProcessNotFound string
  | ErrorGettingProcess error
  | ErrorGettingCPUPercent error
  | ErrorGettingMemPercent error
  | ErrorGatheringMetrics error
  | MetricValue Metric float64
  | Separator

subsection \<open>The shared state\<close>

text \<open>
  A gauge vector with one label is a map from the label value to the gauge's value. A
  \<open>string\<close> is a sequence of bytes, as a Go string is (\<^verbatim>\<open>os.Args\<close> holds raw bytes).
\<close>

type_synonym GaugeVec = "string \<rightharpoonup> float64"

text \<open>
  \<^verbatim>\<open>utf8.ValidString\<close>: the well-formed byte sequences of UTF-8 (no overlong forms, no
  surrogates, nothing above U+10FFFF).
\<close>

definition byte :: "char \<Rightarrow> nat" where
  "byte c = of_char c"

definition inRange :: "nat \<Rightarrow> nat \<Rightarrow> char \<Rightarrow> bool" where
  "inRange lo hi c = (lo \<le> byte c \<and> byte c \<le> hi)"

fun ValidString :: "string \<Rightarrow> bool" where
  "ValidString [] = True"
| "ValidString (c # cs) =
     (if byte c < 0x80 then ValidString cs
      else if inRange 0xC2 0xDF c then
        (case cs of c1 # r \<Rightarrow> inRange 0x80 0xBF c1 \<and> ValidString r | _ \<Rightarrow> False)
      else if byte c = 0xE0 then
        (case cs of c1 # c2 # r \<Rightarrow> inRange 0xA0 0xBF c1 \<and> inRange 0x80 0xBF c2 \<and> ValidString r
                  | _ \<Rightarrow> False)
      else if inRange 0xE1 0xEC c \<or> inRange 0xEE 0xEF c then
        (case cs of c1 # c2 # r \<Rightarrow> inRange 0x80 0xBF c1 \<and> inRange 0x80 0xBF c2 \<and> ValidString r
                  | _ \<Rightarrow> False)
      else if byte c = 0xED then
        (case cs of c1 # c2 # r \<Rightarrow> inRange 0x80 0x9F c1 \<and> inRange 0x80 0xBF c2 \<and> ValidString r
                  | _ \<Rightarrow> False)
      else if byte c = 0xF0 then
        (case cs of c1 # c2 # c3 # r \<Rightarrow>
             inRange 0x90 0xBF c1 \<and> inRange 0x80 0xBF c2 \<and> inRange 0x80 0xBF c3 \<and> ValidString r
           | _ \<Rightarrow> False)
      else if inRange 0xF1 0xF3 c then
        (case cs of c1 # c2 # c3 # r \<Rightarrow>
             inRange 0x80 0xBF c1 \<and> inRange 0x80 0xBF c2 \<and> inRange 0x80 0xBF c3 \<and> ValidString r
           | _ \<Rightarrow> False)
      else if byte c = 0xF4 then
        (case cs of c1 # c2 # c3 # r \<Rightarrow>
             inRange 0x80 0x8F c1 \<and> inRange 0x80 0xBF c2 \<and> inRange 0x80 0xBF c3 \<and> ValidString r
           | _ \<Rightarrow> False)
      else False)"

text \<open>
  \<^verbatim>\<open>vec.WithLabelValues(n).Set(v)\<close>: \<^verbatim>\<open>WithLabelValues\<close> validates the label value and
  panics when it is not valid UTF-8 (\<open>None\<close>); otherwise it creates the child for \<open>n\<close>
  when there is none, and \<^verbatim>\<open>Set\<close> stores \<open>v\<close>.
\<close>

definition WithLabelValues_Set :: "GaugeVec \<Rightarrow> string \<Rightarrow> float64 \<Rightarrow> GaugeVec option" where
  "WithLabelValues_Set vec n v = (if ValidString n then Some (vec(n \<mapsto> v)) else None)"

record state =
  cpuUsage :: GaugeVec
  memUsage :: GaugeVec
  pidUsage :: GaugeVec
  lastUpdate :: "string \<rightharpoonup> time"
  stdout :: "printed list"

definition init :: state where
  "init = \<lparr>cpuUsage = Map.empty, memUsage = Map.empty, pidUsage = Map.empty,
           lastUpdate = Map.empty, stdout = []\<rparr>"

definition Printf :: "printed \<Rightarrow> state \<Rightarrow> state" where
  "Printf p st = st\<lparr>stdout := stdout st @ [p]\<rparr>"

section \<open>The operations\<close>

subsection \<open>getPID\<close>

text \<open>
  The loop of \<^verbatim>\<open>getPID\<close> over the process list: the first process whose name equals the
  wanted one gives the result; the error of \<^verbatim>\<open>Name()\<close> is dropped.
\<close>

fun firstNamed :: "string \<Rightarrow> Process list \<Rightarrow> int option" where
  "firstNamed processName [] = None"
| "firstNamed processName (p # ps) =
     (if fst (Name p) = processName then Some (sint (Pid p))
      else firstNamed processName ps)"

definition getPID :: "os_view \<Rightarrow> string \<Rightarrow> int \<times> printed list" where
  "getPID os processName =
     (case Processes os of
        Inl err \<Rightarrow> (0, [ErrorGettingProcesses err])
      | Inr processes \<Rightarrow>
          (case firstNamed processName processes of
             Some pid \<Rightarrow> (pid, [])
           | None \<Rightarrow> (0, [ProcessNotFound processName])))"

subsection \<open>updateMetrics\<close>

text \<open>
  The body of the loop goes on to the next name (\<open>Next\<close>: the \<^verbatim>\<open>continue\<close> and the end
  of the body), leaves the function (\<open>Return\<close>), or panics in a gauge write (\<open>Panic\<close>);
  an unrecovered panic in the goroutine ends the program. Each outcome carries the state
  reached. \<open>needsUpdate\<close> is the condition
  \<^verbatim>\<open>!ok || time.Since(lastUpdateTime) >= time.Second*5\<close> on the entry of \<^verbatim>\<open>lastUpdate\<close>.
\<close>

datatype flow = Next state | Return state | Panic state

definition needsUpdate :: "time option \<Rightarrow> time \<Rightarrow> bool" where
  "needsUpdate entry clock =
     (case entry of
        None \<Rightarrow> True
      | Some lastUpdateTime \<Rightarrow> clock - lastUpdateTime \<ge> Second * 5)"

definition updateMetrics_body :: "os_view \<Rightarrow> string \<Rightarrow> state \<Rightarrow> flow" where
  "updateMetrics_body os processName st0 =
     (case getPID os processName of (pid, out) \<Rightarrow>
        let st = st0\<lparr>stdout := stdout st0 @ out\<rparr> in
        if pid = 0 then
          (case WithLabelValues_Set (cpuUsage st) processName (Finite 0) of
             None \<Rightarrow> Panic st
           | Some cpu \<Rightarrow>
              (let st1 = st\<lparr>cpuUsage := cpu\<rparr>
               in case WithLabelValues_Set (memUsage st1) processName (Finite 0) of
                    None \<Rightarrow> Panic st1
                  | Some mem \<Rightarrow>
                     (let st2 = st1\<lparr>memUsage := mem\<rparr>
                      in case WithLabelValues_Set (pidUsage st2) processName (Finite 0) of
                           None \<Rightarrow> Panic st2
                         | Some pidv \<Rightarrow> Next (st2\<lparr>pidUsage := pidv\<rparr>))))
        else if needsUpdate (lastUpdate st processName) (SinceClock os) then
          (case NewProcess os (word_of_int pid) of
             Some err \<Rightarrow> Return (Printf (ErrorGettingProcess err) st)
           | None \<Rightarrow>
              (case CPUPercent os (word_of_int pid) of
                 Inl err \<Rightarrow> Return (Printf (ErrorGettingCPUPercent err) st)
               | Inr cpuPercent \<Rightarrow>
                  (case WithLabelValues_Set (cpuUsage st) processName cpuPercent of
                     None \<Rightarrow> Panic st
                   | Some cpu \<Rightarrow>
                      (let st1 = st\<lparr>cpuUsage := cpu\<rparr>
                       in case MemoryPercent os (word_of_int pid) of
                            Inl err \<Rightarrow> Return (Printf (ErrorGettingMemPercent err) st1)
                          | Inr memoryPercent \<Rightarrow>
                             (case WithLabelValues_Set (memUsage st1) processName memoryPercent of
                                None \<Rightarrow> Panic st1
                              | Some mem \<Rightarrow>
                                 (let st2 = st1\<lparr>memUsage := mem\<rparr>
                                  in case WithLabelValues_Set (pidUsage st2) processName
                                            (Finite (of_int pid)) of
                                       None \<Rightarrow> Panic st2
                                     | Some pidv \<Rightarrow>
                                         Next (st2\<lparr>pidUsage := pidv,
                                                   lastUpdate :=
                                                     (lastUpdate st2)(processName \<mapsto> Now os)\<rparr>)))))))
        else Next st)"

fun updateMetrics_loop :: "world \<Rightarrow> string list \<Rightarrow> state \<Rightarrow> flow" where
  "updateMetrics_loop w [] st = Next st"
| "updateMetrics_loop w (processName # rest) st =
     (case updateMetrics_body (w 0) processName st of
        Next st' \<Rightarrow> updateMetrics_loop (later w) rest st'
      | Return st' \<Rightarrow> Return st'
      | Panic st' \<Rightarrow> Panic st')"

text \<open>The state in which a call of \<^verbatim>\<open>updateMetrics\<close> leaves the store, however it ends.\<close>

fun final :: "flow \<Rightarrow> state" where
  "final (Next st) = st"
| "final (Return st) = st"
| "final (Panic st) = st"

definition updateMetrics :: "world \<Rightarrow> string list \<Rightarrow> state \<Rightarrow> state" where
  "updateMetrics w processNames st = final (updateMetrics_loop w processNames st)"

subsection \<open>printMetrics\<close>

text \<open>
  \<^verbatim>\<open>strings.HasPrefix\<close> and the nil-safe getter \<^verbatim>\<open>GetValue\<close> of a gauge. The argument of
  \<open>printMetrics\<close> is what \<^verbatim>\<open>prometheus.DefaultGatherer.Gather()\<close> returned to it.
\<close>

definition HasPrefix :: "string \<Rightarrow> string \<Rightarrow> bool" where
  "HasPrefix s pre = (length s \<ge> length pre \<and> take (length pre) s = pre)"

definition GetValue :: "float64 option \<Rightarrow> float64" where
  "GetValue g = (case g of None \<Rightarrow> Finite 0 | Some v \<Rightarrow> v)"

fun printFamily :: "Metric list \<Rightarrow> printed list" where
  "printFamily [] = []"
| "printFamily (m # ms) =
     (if length (Label m) > 0 \<and> \<not> HasPrefix (LName (Label m ! 0)) ''go_''
      then MetricValue m (GetValue (Gauge m)) # printFamily ms
      else printFamily ms)"

fun printFamilies :: "MetricFamily list \<Rightarrow> printed list" where
  "printFamilies [] = []"
| "printFamilies (mf # mfs) = printFamily (Metrics mf) @ printFamilies mfs"

definition printMetrics :: "error + MetricFamily list \<Rightarrow> state \<Rightarrow> state" where
  "printMetrics gathered st =
     (case gathered of
        Inl err \<Rightarrow> Printf (ErrorGatheringMetrics err) st
      | Inr mfs \<Rightarrow> st\<lparr>stdout := stdout st @ printFamilies mfs @ [Separator]\<rparr>)"

subsection \<open>The default registry\<close>

text \<open>
  \<^verbatim>\<open>init\<close> registers the three gauge vectors with the default registry, which also holds
  the collectors every program gets (Go runtime, process) and those \<^verbatim>\<open>promhttp.Handler()\<close>
  adds. What these other collectors deliver at one call of \<^verbatim>\<open>Gather\<close>, and whether the
  call reports an error, is input.

  A gauge vector is gathered as one family, named as in its options, with one series per
  child, labelled \<^verbatim>\<open>process\<close> and ordered by the label value; a vector without children
  gives no family. The families are ordered by name.
\<close>

record collected =
  Others :: "MetricFamily list"
  Failure :: "error option"

definition processSeries :: "string \<Rightarrow> float64 \<Rightarrow> Metric" where
  "processSeries n v = \<lparr>Label = [\<lparr>LName = ''process'', LValue = n\<rparr>], Gauge = Some v\<rparr>"

definition vecFamily :: "string \<Rightarrow> GaugeVec \<Rightarrow> MetricFamily list" where
  "vecFamily name vec =
     (if dom vec = {} then []
      else [\<lparr>FName = name,
             Metrics = List.map_filter (\<lambda>n. map_option (processSeries n) (vec n))
                         (sorted_list_of_set (dom vec))\<rparr>])"

definition Gather :: "collected \<Rightarrow> state \<Rightarrow> error + MetricFamily list" where
  "Gather c st =
     (case Failure c of
        Some err \<Rightarrow> Inl err
      | None \<Rightarrow>
          Inr (sort_key FName
                 (vecFamily ''Cpuinfo'' (cpuUsage st) @ vecFamily ''Meminfo'' (memUsage st) @
                  vecFamily ''Pidinfo'' (pidUsage st) @ Others c)))"

text \<open>
  \<^verbatim>\<open>promhttp.Handler()\<close> on \<^verbatim>\<open>/metrics\<close>: it gathers and answers with every family
  gathered, or with an HTTP error when gathering reports one. It does not take the mutex
  and changes nothing in the state.
\<close>

datatype response = HTTPError error | Exposition "MetricFamily list"

definition Handler :: "collected \<Rightarrow> state \<Rightarrow> response" where
  "Handler c st = (case Gather c st of Inl err \<Rightarrow> HTTPError err | Inr mfs \<Rightarrow> Exposition mfs)"

subsection \<open>The two tickers\<close>

text \<open>
  \<^verbatim>\<open>main\<close> starts both loops with the same, fixed list of names. A run of the program is
  a sequence of ticks, each one an update pass or a report on what the registry gathers
  then. A panic ends the run: the ticks after it do not happen.
\<close>

datatype tick = UpdateTick world | ReportTick collected

fun run :: "string list \<Rightarrow> tick list \<Rightarrow> state \<Rightarrow> state" where
  "run processNames [] st = st"
| "run processNames (UpdateTick w # ts) st =
     (case updateMetrics_loop w processNames st of
        Next st' \<Rightarrow> run processNames ts st'
      | Return st' \<Rightarrow> run processNames ts st'
      | Panic st' \<Rightarrow> st')"
| "run processNames (ReportTick c # ts) st =
     run processNames ts (printMetrics (Gather c st) st)"

section \<open>Vocabulary of the specification\<close>

text \<open>
  A pass is aborted when the loop was left before its end, by a \<^verbatim>\<open>return\<close> or by a
  panic.
\<close>

fun aborted :: "flow \<Rightarrow> bool" where
  "aborted (Next st) = False"
| "aborted (Return st) = True"
| "aborted (Panic st) = True"

fun panicked :: "flow \<Rightarrow> bool" where
  "panicked (Next st) = False"
| "panicked (Return st) = False"
| "panicked (Panic st) = True"

text \<open>
  The sample read of a process fails when \<^verbatim>\<open>NewProcess\<close>, \<^verbatim>\<open>CPUPercent\<close> or
  \<^verbatim>\<open>MemoryPercent\<close> answers with an error. The first two happen before the loop body has
  written any gauge. \<open>cpuThenMemFails\<close>: the name resolves, the lookup and the CPU read
  answer and the memory read fails.
\<close>

definition lookupOrCPUFails :: "os_view \<Rightarrow> int \<Rightarrow> bool" where
  "lookupOrCPUFails os pid =
     (NewProcess os (word_of_int pid) \<noteq> None \<or> isl (CPUPercent os (word_of_int pid)))"

definition sampleReadFails :: "os_view \<Rightarrow> int \<Rightarrow> bool" where
  "sampleReadFails os pid =
     (lookupOrCPUFails os pid \<or> isl (MemoryPercent os (word_of_int pid)))"

definition cpuThenMemFails :: "os_view \<Rightarrow> string \<Rightarrow> bool" where
  "cpuThenMemFails os n =
     (fst (getPID os n) \<noteq> 0 \<and> \<not> lookupOrCPUFails os (fst (getPID os n)) \<and>
      isl (MemoryPercent os (word_of_int (fst (getPID os n)))))"

definition hasEntries :: "state \<Rightarrow> string \<Rightarrow> bool" where
  "hasEntries st n = (cpuUsage st n \<noteq> None \<and> memUsage st n \<noteq> None \<and> pidUsage st n \<noteq> None)"

definition allZero :: "state \<Rightarrow> string \<Rightarrow> bool" where
  "allZero st n =
     (cpuUsage st n = Some (Finite 0) \<and> memUsage st n = Some (Finite 0) \<and>
      pidUsage st n = Some (Finite 0))"

text \<open>The Reporter's test on a gathered series, and the line it prints for one.\<close>

definition printable :: "Metric \<Rightarrow> bool" where
  "printable m = (Label m \<noteq> [] \<and> \<not> HasPrefix (LName (hd (Label m))) ''go_'')"

definition valueLine :: "Metric \<Rightarrow> printed" where
  "valueLine m = MetricValue m (GetValue (Gauge m))"

text \<open>A snapshot of the registry lists the series of the entry \<open>n\<close> in a family.\<close>

definition listed :: "string \<Rightarrow> string \<Rightarrow> float64 \<Rightarrow> MetricFamily list \<Rightarrow> bool" where
  "listed family n v mfs =
     list_ex (\<lambda>mf. FName mf = family \<and> processSeries n v \<in> set (Metrics mf)) mfs"

section \<open>Concrete inputs\<close>

text \<open>
  Two processes \<open>a\<close> (pid 7) and \<open>b\<close> (pid 8); \<open>view\<close> builds an operating system whose
  readers answer the same for every pid; \<open>sampledAB\<close> is the state after a first pass at
  time 0 in which both names were sampled with cpu 1 and mem 2.
\<close>

definition procA :: Process where
  "procA = \<lparr>Pid = 7, Name = (''a'', None)\<rparr>"

definition procB :: Process where
  "procB = \<lparr>Pid = 8, Name = (''b'', None)\<rparr>"

definition view ::
  "Process list \<Rightarrow> error option \<Rightarrow> error + float64 \<Rightarrow> error + float64 \<Rightarrow> time \<Rightarrow> os_view" where
  "view ps lookup cpu mem t =
     \<lparr>Processes = Inr ps, NewProcess = (\<lambda>_. lookup), CPUPercent = (\<lambda>_. cpu),
      MemoryPercent = (\<lambda>_. mem), SinceClock = t, Now = t\<rparr>"

definition tick1 :: world where
  "tick1 = (\<lambda>_. view [procA, procB] None (Inr (Finite 1)) (Inr (Finite 2)) 0)"

definition sampledAB :: state where
  "sampledAB = updateMetrics tick1 [''a'', ''b''] init"

text \<open>
  Ten seconds later: in \<open>memFails\<close> both processes are listed, the CPU read answers and
  the memory read fails; in \<open>lookupFails\<close> only \<open>a\<close> is listed and \<^verbatim>\<open>NewProcess\<close> fails
  (the process went away after the enumeration).
\<close>

definition memFails :: "real \<Rightarrow> time \<Rightarrow> world" where
  "memFails c t = (\<lambda>_. view [procA, procB] None (Inr (Finite c)) (Inl (Error ''gone'')) t)"

definition lookupFails :: "time \<Rightarrow> world" where
  "lookupFails t = (\<lambda>_. view [procA] (Some (Error ''gone'')) (Inr (Finite 3)) (Inr (Finite 4)) t)"

text \<open>
  \<open>running ps t\<close>: at time \<open>t\<close> the processes \<open>ps\<close> are listed and every read answers
  (cpu 3, mem 4). \<open>onlyA\<close>: at time 0 only \<open>a\<close> is running. \<open>enumFails\<close>: the enumeration
  of the processes fails at every call; \<open>enumFailsOnce\<close>: it fails at the first call of the
  pass only. \<open>restarted\<close>: \<open>a\<close> is not listed at the first call, is listed at the later
  ones, and its lookup fails. \<open>badName\<close> is the single byte FF, which is not valid UTF-8.
\<close>

definition running :: "Process list \<Rightarrow> time \<Rightarrow> world" where
  "running ps t = (\<lambda>_. view ps None (Inr (Finite 3)) (Inr (Finite 4)) t)"

definition onlyA :: world where
  "onlyA = (\<lambda>_. view [procA] None (Inr (Finite 1)) (Inr (Finite 2)) 0)"

definition enumFails :: world where
  "enumFails = (\<lambda>_. \<lparr>Processes = Inl (Error ''EMFILE''), NewProcess = (\<lambda>_. None),
                      CPUPercent = (\<lambda>_. Inr (Finite 3)), MemoryPercent = (\<lambda>_. Inr (Finite 4)),
                      SinceClock = 10 * Second, Now = 10 * Second\<rparr>)"

definition enumFailsOnce :: world where
  "enumFailsOnce = (\<lambda>i. if i = 0 then enumFails 0 else running [procA, procB] (10 * Second) i)"

definition restarted :: world where
  "restarted = (\<lambda>i. if i = 0 then running [] (10 * Second) i else lookupFails (10 * Second) i)"

definition badName :: string where
  "badName = [CHR 0xFF]"

text \<open>
  \<open>goInfo\<close> and \<open>openFds\<close> are two families of the default registry's own collectors, the
  first with one label, the second with none.
\<close>

definition goInfo :: MetricFamily where
  "goInfo = \<lparr>FName = ''go_info'',
            Metrics = [\<lparr>Label = [\<lparr>LName = ''version'', LValue = ''go1.21.0''\<rparr>],
                        Gauge = Some (Finite 1)\<rparr>]\<rparr>"

definition openFds :: MetricFamily where
  "openFds = \<lparr>FName = ''process_open_fds'', Metrics = [\<lparr>Label = [], Gauge = Some (Finite 9)\<rparr>]\<rparr>"

definition runtime :: collected where
  "runtime = \<lparr>Others = [goInfo, openFds], Failure = None\<rparr>"

section \<open>The branches of the loop body\<close>

lemma getPID_found_silent: "fst (getPID os n) \<noteq> 0 \<Longrightarrow> snd (getPID os n) = []"
  by (auto simp: getPID_def split: sum.splits option.splits)

lemma body_not_found:
  assumes "fst (getPID os n) = 0" and "ValidString n"
  shows "updateMetrics_body os n st =
         Next (st\<lparr>stdout := stdout st @ snd (getPID os n),
                  cpuUsage := (cpuUsage st)(n \<mapsto> Finite 0),
                  memUsage := (memUsage st)(n \<mapsto> Finite 0),
                  pidUsage := (pidUsage st)(n \<mapsto> Finite 0)\<rparr>)"
  using assms
  by (cases "getPID os n") (simp add: updateMetrics_body_def WithLabelValues_Set_def)

lemma body_not_found_panics:
  assumes "fst (getPID os n) = 0" and "\<not> ValidString n"
  shows "updateMetrics_body os n st = Panic (st\<lparr>stdout := stdout st @ snd (getPID os n)\<rparr>)"
  using assms
  by (cases "getPID os n") (simp add: updateMetrics_body_def WithLabelValues_Set_def)

lemma body_fresh:
  assumes "fst (getPID os n) \<noteq> 0" "\<not> needsUpdate (lastUpdate st n) (SinceClock os)"
  shows "updateMetrics_body os n st = Next st"
  using assms getPID_found_silent[OF assms(1)]
  by (cases "getPID os n") (simp add: updateMetrics_body_def)

lemma body_lookup_fails:
  assumes "fst (getPID os n) = pid" "pid \<noteq> 0" "needsUpdate (lastUpdate st n) (SinceClock os)"
    "NewProcess os (word_of_int pid) = Some err"
  shows "updateMetrics_body os n st = Return (Printf (ErrorGettingProcess err) st)"
  using assms getPID_found_silent[of os n]
  by (cases "getPID os n") (simp add: updateMetrics_body_def)

lemma body_cpu_fails:
  assumes "fst (getPID os n) = pid" "pid \<noteq> 0" "needsUpdate (lastUpdate st n) (SinceClock os)"
    "NewProcess os (word_of_int pid) = None" "CPUPercent os (word_of_int pid) = Inl err"
  shows "updateMetrics_body os n st = Return (Printf (ErrorGettingCPUPercent err) st)"
  using assms getPID_found_silent[of os n]
  by (cases "getPID os n") (simp add: updateMetrics_body_def)

lemma body_write_panics:
  assumes "fst (getPID os n) = pid" "pid \<noteq> 0" "needsUpdate (lastUpdate st n) (SinceClock os)"
    "NewProcess os (word_of_int pid) = None" "CPUPercent os (word_of_int pid) = Inr c"
    "\<not> ValidString n"
  shows "updateMetrics_body os n st = Panic st"
  using assms getPID_found_silent[of os n]
  by (cases "getPID os n") (simp add: updateMetrics_body_def WithLabelValues_Set_def)

lemma body_mem_fails:
  assumes "fst (getPID os n) = pid" "pid \<noteq> 0" "needsUpdate (lastUpdate st n) (SinceClock os)"
    "NewProcess os (word_of_int pid) = None" "CPUPercent os (word_of_int pid) = Inr c"
    "ValidString n" "MemoryPercent os (word_of_int pid) = Inl err"
  shows "updateMetrics_body os n st =
         Return (Printf (ErrorGettingMemPercent err) (st\<lparr>cpuUsage := (cpuUsage st)(n \<mapsto> c)\<rparr>))"
  using assms getPID_found_silent[of os n]
  by (cases "getPID os n") (simp add: updateMetrics_body_def WithLabelValues_Set_def)

lemma body_sampled:
  assumes "fst (getPID os n) = pid" "pid \<noteq> 0" "needsUpdate (lastUpdate st n) (SinceClock os)"
    "NewProcess os (word_of_int pid) = None" "CPUPercent os (word_of_int pid) = Inr c"
    "ValidString n" "MemoryPercent os (word_of_int pid) = Inr m"
  shows "updateMetrics_body os n st =
         Next (st\<lparr>cpuUsage := (cpuUsage st)(n \<mapsto> c),
                  memUsage := (memUsage st)(n \<mapsto> m),
                  pidUsage := (pidUsage st)(n \<mapsto> Finite (of_int pid)),
                  lastUpdate := (lastUpdate st)(n \<mapsto> Now os)\<rparr>)"
  using assms getPID_found_silent[of os n]
  by (cases "getPID os n") (simp add: updateMetrics_body_def WithLabelValues_Set_def)

lemmas body_unfold = updateMetrics_body_def WithLabelValues_Set_def Printf_def Let_def

text \<open>What the body never touches: the entries of the other names, and existing entries.\<close>

lemma body_frame:
  "n \<noteq> m \<Longrightarrow>
     cpuUsage (final (updateMetrics_body os m st)) n = cpuUsage st n \<and>
     memUsage (final (updateMetrics_body os m st)) n = memUsage st n \<and>
     pidUsage (final (updateMetrics_body os m st)) n = pidUsage st n \<and>
     lastUpdate (final (updateMetrics_body os m st)) n = lastUpdate st n"
  by (auto simp: body_unfold split: prod.splits option.splits sum.splits)

lemma body_keeps:
  "(cpuUsage st n \<noteq> None \<longrightarrow> cpuUsage (final (updateMetrics_body os m st)) n \<noteq> None) \<and>
   (memUsage st n \<noteq> None \<longrightarrow> memUsage (final (updateMetrics_body os m st)) n \<noteq> None) \<and>
   (pidUsage st n \<noteq> None \<longrightarrow> pidUsage (final (updateMetrics_body os m st)) n \<noteq> None) \<and>
   (lastUpdate st n \<noteq> None \<longrightarrow> lastUpdate (final (updateMetrics_body os m st)) n \<noteq> None)"
  by (auto simp: body_unfold split: prod.splits option.splits sum.splits)

text \<open>A failing sample read: what the body leaves alone, and what it prints.\<close>

lemma body_read_fails:
  assumes "fst (getPID os n) = pid" "pid \<noteq> 0" "needsUpdate (lastUpdate st n) (SinceClock os)"
    and "sampleReadFails os pid"
  shows "aborted (updateMetrics_body os n st) \<and>
         memUsage (final (updateMetrics_body os n st)) = memUsage st \<and>
         pidUsage (final (updateMetrics_body os n st)) = pidUsage st \<and>
         lastUpdate (final (updateMetrics_body os n st)) = lastUpdate st \<and>
         (\<forall>m. m \<noteq> n \<longrightarrow> cpuUsage (final (updateMetrics_body os n st)) m = cpuUsage st m) \<and>
         (lookupOrCPUFails os pid \<longrightarrow> cpuUsage (final (updateMetrics_body os n st)) = cpuUsage st) \<and>
         (lookupOrCPUFails os pid \<or> ValidString n \<longrightarrow> \<not> panicked (updateMetrics_body os n st))"
proof (cases "NewProcess os (word_of_int pid)")
  case (Some err)
  from body_lookup_fails[OF assms(1-3) Some] show ?thesis
    by (simp add: Printf_def lookupOrCPUFails_def Some)
next
  case None
  show ?thesis
  proof (cases "CPUPercent os (word_of_int pid)")
    case (Inl err)
    from body_cpu_fails[OF assms(1-3) None Inl] show ?thesis
      by (simp add: Printf_def lookupOrCPUFails_def Inl)
  next
    case (Inr c)
    with None assms(4) obtain err where mem: "MemoryPercent os (word_of_int pid) = Inl err"
      by (cases "MemoryPercent os (word_of_int pid)")
         (auto simp: sampleReadFails_def lookupOrCPUFails_def)
    show ?thesis
    proof (cases "ValidString n")
      case True
      from body_mem_fails[OF assms(1-3) None Inr True mem] show ?thesis
        by (simp add: Printf_def lookupOrCPUFails_def Inr None)
    next
      case False
      from body_write_panics[OF assms(1-3) None Inr False] show ?thesis
        by (simp add: lookupOrCPUFails_def Inr None False)
    qed
  qed
qed

lemma body_read_fails_log:
  assumes "fst (getPID os n) = pid" "pid \<noteq> 0" "needsUpdate (lastUpdate st n) (SinceClock os)"
    and "sampleReadFails os pid" and "lookupOrCPUFails os pid \<or> ValidString n"
  shows "\<exists>st' err. updateMetrics_body os n st = Return st' \<and>
           (stdout st' = stdout st @ [ErrorGettingProcess err] \<or>
            stdout st' = stdout st @ [ErrorGettingCPUPercent err] \<or>
            stdout st' = stdout st @ [ErrorGettingMemPercent err])"
proof (cases "NewProcess os (word_of_int pid)")
  case (Some err)
  from body_lookup_fails[OF assms(1-3) Some] show ?thesis
    by (simp add: Printf_def)
next
  case None
  show ?thesis
  proof (cases "CPUPercent os (word_of_int pid)")
    case (Inl err)
    from body_cpu_fails[OF assms(1-3) None Inl] show ?thesis
      by (simp add: Printf_def)
  next
    case (Inr c)
    with None assms(4) obtain err where mem: "MemoryPercent os (word_of_int pid) = Inl err"
      by (cases "MemoryPercent os (word_of_int pid)")
         (auto simp: sampleReadFails_def lookupOrCPUFails_def)
    from Inr None assms(5) have "ValidString n" by (simp add: lookupOrCPUFails_def)
    from body_mem_fails[OF assms(1-3) None Inr this mem] show ?thesis
      by (simp add: Printf_def)
  qed
qed

section \<open>The loop over the configured names\<close>

lemma loop_append_Next:
  "updateMetrics_loop w pre st = Next s \<Longrightarrow>
   updateMetrics_loop w (pre @ rest) st = updateMetrics_loop (\<lambda>i. w (length pre + i)) rest s"
proof (induction pre arbitrary: w st)
  case Nil
  then show ?case by simp
next
  case (Cons p pre)
  from Cons.prems obtain s1 where body: "updateMetrics_body (w 0) p st = Next s1"
    and loop: "updateMetrics_loop (later w) pre s1 = Next s"
    by (cases "updateMetrics_body (w 0) p st") auto
  from Cons.IH[OF loop] body show ?case by (simp add: later_def)
qed

lemma loop_abort_at:
  assumes "updateMetrics_loop w pre st = Next s1"
    and "aborted (updateMetrics_body (w (length pre)) n s1)"
  shows "updateMetrics_loop w (pre @ n # post) st = updateMetrics_body (w (length pre)) n s1"
  using loop_append_Next[OF assms(1), of "n # post"] assms(2)
  by (cases "updateMetrics_body (w (length pre)) n s1") auto

text \<open>
  A property of the state that every visit of a name keeps is kept by the whole pass.
\<close>

lemma loop_preserves:
  assumes "\<And>os m s. P s \<Longrightarrow> P (final (updateMetrics_body os m s))"
    and "P st"
  shows "P (final (updateMetrics_loop w ns st))"
  using assms(2)
proof (induction ns arbitrary: w st)
  case Nil
  then show ?case by simp
next
  case (Cons m ns)
  from assms(1)[OF Cons.prems, of "w 0" m] Cons.IH[of _ "later w"]
  show ?case by (cases "updateMetrics_body (w 0) m st") auto
qed

lemma loop_frame:
  assumes "n \<notin> set ns"
  shows "cpuUsage (final (updateMetrics_loop w ns st)) n = cpuUsage st n \<and>
         memUsage (final (updateMetrics_loop w ns st)) n = memUsage st n \<and>
         pidUsage (final (updateMetrics_loop w ns st)) n = pidUsage st n \<and>
         lastUpdate (final (updateMetrics_loop w ns st)) n = lastUpdate st n"
  using assms
proof (induction ns arbitrary: w st)
  case Nil
  show ?case by simp
next
  case (Cons m ns)
  then have ne: "n \<noteq> m" and nin: "n \<notin> set ns" by auto
  from body_frame[OF ne, where os="w 0" and st=st] Cons.IH[OF nin, of "later w"]
  show ?case by (cases "updateMetrics_body (w 0) m st") auto
qed

lemma loop_keeps:
  "(cpuUsage st n \<noteq> None \<longrightarrow> cpuUsage (final (updateMetrics_loop w ns st)) n \<noteq> None) \<and>
   (memUsage st n \<noteq> None \<longrightarrow> memUsage (final (updateMetrics_loop w ns st)) n \<noteq> None) \<and>
   (pidUsage st n \<noteq> None \<longrightarrow> pidUsage (final (updateMetrics_loop w ns st)) n \<noteq> None) \<and>
   (lastUpdate st n \<noteq> None \<longrightarrow> lastUpdate (final (updateMetrics_loop w ns st)) n \<noteq> None)"
proof -
  have "cpuUsage st n \<noteq> None \<Longrightarrow> cpuUsage (final (updateMetrics_loop w ns st)) n \<noteq> None"
    by (rule loop_preserves[where P="\<lambda>s. cpuUsage s n \<noteq> None"]) (use body_keeps in blast)+
  moreover
  have "memUsage st n \<noteq> None \<Longrightarrow> memUsage (final (updateMetrics_loop w ns st)) n \<noteq> None"
    by (rule loop_preserves[where P="\<lambda>s. memUsage s n \<noteq> None"]) (use body_keeps in blast)+
  moreover
  have "pidUsage st n \<noteq> None \<Longrightarrow> pidUsage (final (updateMetrics_loop w ns st)) n \<noteq> None"
    by (rule loop_preserves[where P="\<lambda>s. pidUsage s n \<noteq> None"]) (use body_keeps in blast)+
  moreover
  have "lastUpdate st n \<noteq> None \<Longrightarrow> lastUpdate (final (updateMetrics_loop w ns st)) n \<noteq> None"
    by (rule loop_preserves[where P="\<lambda>s. lastUpdate s n \<noteq> None"]) (use body_keeps in blast)+
  ultimately show ?thesis by blast
qed

text \<open>A pass in which every enumeration of the processes fails.\<close>

lemma loop_enum_fails:
  assumes "length errs = length ns"
    and "\<forall>i<length ns. Processes (w i) = Inl (errs ! i)"
    and "\<forall>n\<in>set ns. ValidString n"
  shows "\<exists>st'. updateMetrics_loop w ns st = Next st' \<and>
               lastUpdate st' = lastUpdate st \<and>
               stdout st' = stdout st @ map ErrorGettingProcesses errs \<and>
               (\<forall>n\<in>set ns. allZero st' n)"
  using assms
proof (induction ns arbitrary: w st errs)
  case Nil
  then show ?case by simp
next
  case (Cons m ns)
  from Cons.prems(1) obtain e es where errs: "errs = e # es" and len: "length es = length ns"
    by (cases errs) auto
  from Cons.prems(2) errs have here: "Processes (w 0) = Inl e"
    and rest: "\<forall>i<length ns. Processes (later w i) = Inl (es ! i)"
    by (auto simp: later_def)
  from Cons.prems(3) have valid: "ValidString m" and valids: "\<forall>n\<in>set ns. ValidString n"
    by simp_all
  from here have pid: "getPID (w 0) m = (0, [ErrorGettingProcesses e])"
    by (simp add: getPID_def)
  let ?s1 = "st\<lparr>stdout := stdout st @ snd (getPID (w 0) m),
                  cpuUsage := (cpuUsage st)(m \<mapsto> Finite 0),
                  memUsage := (memUsage st)(m \<mapsto> Finite 0),
                  pidUsage := (pidUsage st)(m \<mapsto> Finite 0)\<rparr>"
  from pid valid have body: "updateMetrics_body (w 0) m st = Next ?s1"
    by (intro body_not_found) simp_all
  from Cons.IH[OF len rest valids, of ?s1] obtain st' where
    loop: "updateMetrics_loop (later w) ns ?s1 = Next st'"
    and stamp: "lastUpdate st' = lastUpdate ?s1"
    and out: "stdout st' = stdout ?s1 @ map ErrorGettingProcesses es"
    and zero: "\<forall>n\<in>set ns. allZero st' n"
    by blast
  have "allZero st' m"
  proof (cases "m \<in> set ns")
    case True
    with zero show ?thesis by blast
  next
    case False
    from loop_frame[OF False, of "later w" ?s1] loop show ?thesis
      by (simp add: allZero_def)
  qed
  with zero have "\<forall>n\<in>set (m # ns). allZero st' n" by simp
  moreover from body loop have "updateMetrics_loop w (m # ns) st = Next st'" by simp
  moreover from stamp have "lastUpdate st' = lastUpdate st" by simp
  moreover from out pid errs have "stdout st' = stdout st @ map ErrorGettingProcesses errs"
    by simp
  ultimately show ?case by blast
qed

text \<open>The last visit of a name in a pass finds it not running.\<close>

lemma loop_last_not_found:
  assumes "updateMetrics_loop w pre st = Next s1"
    and "fst (getPID (w (length pre)) n) = 0" and "ValidString n" and "n \<notin> set post"
  shows "allZero (final (updateMetrics_loop w (pre @ n # post) st)) n"
proof -
  let ?s2 = "s1\<lparr>stdout := stdout s1 @ snd (getPID (w (length pre)) n),
                  cpuUsage := (cpuUsage s1)(n \<mapsto> Finite 0),
                  memUsage := (memUsage s1)(n \<mapsto> Finite 0),
                  pidUsage := (pidUsage s1)(n \<mapsto> Finite 0)\<rparr>"
  from body_not_found[OF assms(2,3), of s1] loop_append_Next[OF assms(1), of "n # post"]
  have "updateMetrics_loop w (pre @ n # post) st =
        updateMetrics_loop (later (\<lambda>i. w (length pre + i))) post ?s2"
    by simp
  with loop_frame[OF assms(4), of "later (\<lambda>i. w (length pre + i))" ?s2]
  show ?thesis by (simp add: allZero_def)
qed

section \<open>Entries of the store over a run\<close>

lemma printMetrics_store:
  "cpuUsage (printMetrics g st) = cpuUsage st \<and> memUsage (printMetrics g st) = memUsage st \<and>
   pidUsage (printMetrics g st) = pidUsage st \<and> lastUpdate (printMetrics g st) = lastUpdate st"
  by (simp add: printMetrics_def Printf_def split: sum.splits)

text \<open>
  A property of the store that every visit of a name keeps, and that does not depend on
  the console output, is kept by a run.
\<close>

lemma run_preserves:
  assumes "\<And>os m s. P s \<Longrightarrow> P (final (updateMetrics_body os m s))"
    and "\<And>g s. P s \<Longrightarrow> P (printMetrics g s)"
    and "P st"
  shows "P (run ns ts st)"
  using assms(3)
proof (induction ts arbitrary: st)
  case Nil
  then show ?case by simp
next
  case (Cons t ts)
  show ?case
  proof (cases t)
    case (UpdateTick w)
    from loop_preserves[of P, OF assms(1) Cons.prems, of w ns] Cons.IH UpdateTick
    show ?thesis by (cases "updateMetrics_loop w ns st") auto
  next
    case (ReportTick c)
    with Cons.IH[OF assms(2)[OF Cons.prems]] show ?thesis by simp
  qed
qed

lemma run_keeps:
  "(cpuUsage st n \<noteq> None \<longrightarrow> cpuUsage (run ns ts st) n \<noteq> None) \<and>
   (memUsage st n \<noteq> None \<longrightarrow> memUsage (run ns ts st) n \<noteq> None) \<and>
   (pidUsage st n \<noteq> None \<longrightarrow> pidUsage (run ns ts st) n \<noteq> None)"
proof -
  have "cpuUsage st n \<noteq> None \<Longrightarrow> cpuUsage (run ns ts st) n \<noteq> None"
    by (rule run_preserves[where P="\<lambda>s. cpuUsage s n \<noteq> None"])
       (use body_keeps in blast, simp_all add: printMetrics_store)
  moreover
  have "memUsage st n \<noteq> None \<Longrightarrow> memUsage (run ns ts st) n \<noteq> None"
    by (rule run_preserves[where P="\<lambda>s. memUsage s n \<noteq> None"])
       (use body_keeps in blast, simp_all add: printMetrics_store)
  moreover
  have "pidUsage st n \<noteq> None \<Longrightarrow> pidUsage (run ns ts st) n \<noteq> None"
    by (rule run_preserves[where P="\<lambda>s. pidUsage s n \<noteq> None"])
       (use body_keeps in blast, simp_all add: printMetrics_store)
  ultimately show ?thesis by blast
qed

text \<open>
  A timestamp is only written together with the three gauges: a name with a timestamp has
  its three entries.
\<close>

lemma body_stamped:
  assumes "\<forall>n. lastUpdate st n \<noteq> None \<longrightarrow> hasEntries st n"
  shows "\<forall>n. lastUpdate (final (updateMetrics_body os m st)) n \<noteq> None \<longrightarrow>
             hasEntries (final (updateMetrics_body os m st)) n"
  using assms
  by (auto simp: body_unfold hasEntries_def split: prod.splits option.splits sum.splits if_splits)

lemma run_stamped:
  assumes "\<forall>n. lastUpdate st n \<noteq> None \<longrightarrow> hasEntries st n"
  shows "\<forall>n. lastUpdate (run ns ts st) n \<noteq> None \<longrightarrow> hasEntries (run ns ts st) n"
  by (rule run_preserves[where P="\<lambda>s. \<forall>n. lastUpdate s n \<noteq> None \<longrightarrow> hasEntries s n"])
     (use body_stamped assms in \<open>auto simp: printMetrics_store hasEntries_def\<close>)

lemma init_stamped: "\<forall>n. lastUpdate init n \<noteq> None \<longrightarrow> hasEntries init n"
  by (simp add: init_def)

lemma body_Next_entries:
  assumes "lastUpdate st n \<noteq> None \<longrightarrow> hasEntries st n"
    and "updateMetrics_body os n st = Next s1"
  shows "hasEntries s1 n"
  using assms
  by (auto simp: body_unfold hasEntries_def needsUpdate_def
           split: prod.splits option.splits sum.splits if_splits)

lemma loop_complete_entries:
  assumes "\<forall>n. lastUpdate st n \<noteq> None \<longrightarrow> hasEntries st n"
    and "updateMetrics_loop w ns st = Next st'"
    and "n \<in> set ns"
  shows "hasEntries st' n"
  using assms
proof (induction ns arbitrary: w st)
  case Nil
  then show ?case by simp
next
  case (Cons m ns)
  from Cons.prems(2) obtain s1 where body: "updateMetrics_body (w 0) m st = Next s1"
    and loop: "updateMetrics_loop (later w) ns s1 = Next st'"
    by (cases "updateMetrics_body (w 0) m st") auto
  from body_stamped[OF Cons.prems(1), of "w 0" m] body
  have inv: "\<forall>n. lastUpdate s1 n \<noteq> None \<longrightarrow> hasEntries s1 n" by simp
  show ?case
  proof (cases "n \<in> set ns")
    case True
    from Cons.IH[OF inv loop True] show ?thesis .
  next
    case False
    with Cons.prems(3) have "n = m" by simp
    with body_Next_entries[of st m "w 0" s1] Cons.prems(1) body have "hasEntries s1 n" by blast
    with loop_keeps[of s1 n "later w" ns] loop show ?thesis by (simp add: hasEntries_def)
  qed
qed

text \<open>A name without a timestamp after a pass that ran through was zeroed by it.\<close>

lemma body_Next_unstamped:
  assumes "updateMetrics_body os n st = Next s1" and "lastUpdate s1 n = None"
  shows "allZero s1 n"
  using assms
  by (auto simp: body_unfold allZero_def needsUpdate_def
           split: prod.splits option.splits sum.splits if_splits)

lemma loop_complete_unstamped:
  assumes "updateMetrics_loop w ns st = Next st'"
    and "n \<in> set ns" and "lastUpdate st' n = None"
  shows "allZero st' n"
  using assms
proof (induction ns arbitrary: w st)
  case Nil
  then show ?case by simp
next
  case (Cons m ns)
  from Cons.prems(1) obtain s1 where body: "updateMetrics_body (w 0) m st = Next s1"
    and loop: "updateMetrics_loop (later w) ns s1 = Next st'"
    by (cases "updateMetrics_body (w 0) m st") auto
  show ?case
  proof (cases "n \<in> set ns")
    case True
    from Cons.IH[OF loop True Cons.prems(3)] show ?thesis .
  next
    case False
    with Cons.prems(2) have nm: "n = m" by simp
    from loop_frame[OF False, of "later w" s1] loop
    have same: "cpuUsage st' n = cpuUsage s1 n" "memUsage st' n = memUsage s1 n"
      "pidUsage st' n = pidUsage s1 n" "lastUpdate st' n = lastUpdate s1 n"
      by simp_all
    with Cons.prems(3) have "lastUpdate s1 n = None" by simp
    with body nm have "allZero s1 n" by (auto intro: body_Next_unstamped)
    with same show ?thesis by (simp add: allZero_def)
  qed
qed

text \<open>
  The mem and pid gauges of a name without a timestamp, once 0, stay 0 as long as it has
  no timestamp. So does its cpu gauge, unless a memory read of the name fails after its CPU
  read answered.
\<close>

lemma body_unstamped_mem_pid:
  assumes "lastUpdate st n = None \<longrightarrow>
             memUsage st n = Some (Finite 0) \<and> pidUsage st n = Some (Finite 0)"
  shows "lastUpdate (final (updateMetrics_body os m st)) n = None \<longrightarrow>
           memUsage (final (updateMetrics_body os m st)) n = Some (Finite 0) \<and>
           pidUsage (final (updateMetrics_body os m st)) n = Some (Finite 0)"
  using assms
  by (auto simp: body_unfold split: prod.splits option.splits sum.splits if_splits)

lemma run_unstamped_mem_pid:
  assumes "lastUpdate st n = None \<longrightarrow>
             memUsage st n = Some (Finite 0) \<and> pidUsage st n = Some (Finite 0)"
  shows "lastUpdate (run ns ts st) n = None \<longrightarrow>
           memUsage (run ns ts st) n = Some (Finite 0) \<and>
           pidUsage (run ns ts st) n = Some (Finite 0)"
  by (rule run_preserves[where P="\<lambda>s. lastUpdate s n = None \<longrightarrow>
           memUsage s n = Some (Finite 0) \<and> pidUsage s n = Some (Finite 0)"])
     (use body_unstamped_mem_pid assms in \<open>auto simp: printMetrics_store\<close>)

lemma body_unstamped_cpu:
  assumes "lastUpdate st n = None \<longrightarrow> cpuUsage st n = Some (Finite 0)"
    and "m = n \<longrightarrow> \<not> cpuThenMemFails os n"
  shows "lastUpdate (final (updateMetrics_body os m st)) n = None \<longrightarrow>
           cpuUsage (final (updateMetrics_body os m st)) n = Some (Finite 0)"
proof (cases "m = n")
  case False
  with body_frame[of n m os st] assms(1) show ?thesis by auto
next
  case True
  with assms show ?thesis
    by (auto simp: body_unfold cpuThenMemFails_def lookupOrCPUFails_def
             split: prod.splits option.splits sum.splits if_splits)
qed

lemma loop_unstamped_cpu:
  assumes "lastUpdate st n = None \<longrightarrow> cpuUsage st n = Some (Finite 0)"
    and "\<forall>i<length ns. ns ! i = n \<longrightarrow> \<not> cpuThenMemFails (w i) n"
  shows "lastUpdate (final (updateMetrics_loop w ns st)) n = None \<longrightarrow>
           cpuUsage (final (updateMetrics_loop w ns st)) n = Some (Finite 0)"
  using assms
proof (induction ns arbitrary: w st)
  case Nil
  then show ?case by simp
next
  case (Cons m ns)
  from Cons.prems(2) have here: "m = n \<longrightarrow> \<not> cpuThenMemFails (w 0) n"
    and rest: "\<forall>i<length ns. ns ! i = n \<longrightarrow> \<not> cpuThenMemFails (later w i) n"
    by (auto simp: later_def)
  note b = body_unstamped_cpu[OF Cons.prems(1) here]
  show ?case
  proof (cases "updateMetrics_body (w 0) m st")
    case (Next s1)
    with b Cons.IH[of s1 "later w", OF _ rest] show ?thesis by simp
  next
    case (Return s1)
    with b show ?thesis by simp
  next
    case (Panic s1)
    with b show ?thesis by simp
  qed
qed

lemma run_unstamped_cpu:
  assumes "lastUpdate st n = None \<longrightarrow> cpuUsage st n = Some (Finite 0)"
    and "\<forall>w i. UpdateTick w \<in> set ts \<and> i < length ns \<and> ns ! i = n \<longrightarrow> \<not> cpuThenMemFails (w i) n"
  shows "lastUpdate (run ns ts st) n = None \<longrightarrow> cpuUsage (run ns ts st) n = Some (Finite 0)"
  using assms
proof (induction ts arbitrary: st)
  case Nil
  then show ?case by simp
next
  case (Cons t ts)
  from Cons.prems(2)
  have later_ticks: "\<forall>w i. UpdateTick w \<in> set ts \<and> i < length ns \<and> ns ! i = n \<longrightarrow>
                        \<not> cpuThenMemFails (w i) n"
    by auto
  show ?case
  proof (cases t)
    case (UpdateTick w)
    with Cons.prems(2) have "\<forall>i<length ns. ns ! i = n \<longrightarrow> \<not> cpuThenMemFails (w i) n"
      by auto
    note l = loop_unstamped_cpu[OF Cons.prems(1) this]
    show ?thesis
    proof (cases "updateMetrics_loop w ns st")
      case (Next s1)
      with l Cons.IH[of s1, OF _ later_ticks] UpdateTick show ?thesis by simp
    next
      case (Return s1)
      with l Cons.IH[of s1, OF _ later_ticks] UpdateTick show ?thesis by simp
    next
      case (Panic s1)
      with l UpdateTick show ?thesis by simp
    qed
  next
    case (ReportTick c)
    from Cons.prems(1) have "lastUpdate (printMetrics (Gather c st) st) n = None \<longrightarrow>
        cpuUsage (printMetrics (Gather c st) st) n = Some (Finite 0)"
      by (simp add: printMetrics_store)
    from Cons.IH[OF this later_ticks] ReportTick show ?thesis by simp
  qed
qed

text \<open>Each gauge vector has finitely many children.\<close>

lemma body_finite:
  assumes "finite (dom (cpuUsage st)) \<and> finite (dom (memUsage st)) \<and> finite (dom (pidUsage st))"
  shows "finite (dom (cpuUsage (final (updateMetrics_body os m st)))) \<and>
         finite (dom (memUsage (final (updateMetrics_body os m st)))) \<and>
         finite (dom (pidUsage (final (updateMetrics_body os m st))))"
  using assms
  by (auto simp: body_unfold split: prod.splits option.splits sum.splits if_splits)

lemma run_finite:
  "finite (dom (cpuUsage (run ns ts init))) \<and> finite (dom (memUsage (run ns ts init))) \<and>
   finite (dom (pidUsage (run ns ts init)))"
  by (rule run_preserves[where P="\<lambda>s. finite (dom (cpuUsage s)) \<and> finite (dom (memUsage s)) \<and>
         finite (dom (pidUsage s))"])
     (use body_finite in \<open>auto simp: printMetrics_store init_def\<close>)

section \<open>The Reporter and the registry\<close>

lemma printFamily_filter: "printFamily ms = map valueLine (filter printable ms)"
  by (induction ms) (auto simp: printable_def valueLine_def hd_conv_nth)

lemma printFamilies_filter:
  "printFamilies mfs = map valueLine (filter printable (concat (map Metrics mfs)))"
  by (induction mfs) (simp_all add: printFamily_filter)

lemma printable_processSeries: "printable (processSeries n v)"
  by (simp add: printable_def processSeries_def HasPrefix_def)

lemma printed_series:
  "mf \<in> set mfs \<Longrightarrow> m \<in> set (Metrics mf) \<Longrightarrow> printable m \<Longrightarrow>
   valueLine m \<in> set (printFamilies mfs)"
  by (auto simp: printFamilies_filter)

lemma vecFamily_lists:
  assumes "finite (dom vec)" and "vec n = Some v"
  shows "vecFamily name vec =
           [\<lparr>FName = name,
             Metrics = List.map_filter (\<lambda>n. map_option (processSeries n) (vec n))
                         (sorted_list_of_set (dom vec))\<rparr>] \<and>
         processSeries n v \<in> set (List.map_filter (\<lambda>n. map_option (processSeries n) (vec n))
                         (sorted_list_of_set (dom vec)))"
proof -
  from assms(2) have "n \<in> dom vec" by auto
  with assms show ?thesis
    by (auto simp: vecFamily_def List.map_filter_def intro!: image_eqI[where x=n])
qed

lemma snapshot_lists:
  assumes "finite (dom vec)" and "vec n = Some v" and "Gather c st = Inr mfs"
    and "set (vecFamily family vec) \<subseteq>
           set (vecFamily ''Cpuinfo'' (cpuUsage st) @ vecFamily ''Meminfo'' (memUsage st) @
                vecFamily ''Pidinfo'' (pidUsage st) @ Others c)"
  shows "listed family n v mfs \<and>
         valueLine (processSeries n v) \<in> set (stdout (printMetrics (Inr mfs) st')) \<and>
         Handler c st = Exposition mfs"
proof -
  from assms(3) have mfs: "mfs = sort_key FName
                 (vecFamily ''Cpuinfo'' (cpuUsage st) @ vecFamily ''Meminfo'' (memUsage st) @
                  vecFamily ''Pidinfo'' (pidUsage st) @ Others c)"
    by (auto simp: Gather_def split: option.splits)
  let ?mf = "\<lparr>FName = family,
             Metrics = List.map_filter (\<lambda>n. map_option (processSeries n) (vec n))
                         (sorted_list_of_set (dom vec))\<rparr>"
  from vecFamily_lists[OF assms(1,2), of family] assms(4)
  have mf: "?mf \<in> set mfs" and ser: "processSeries n v \<in> set (Metrics ?mf)"
    unfolding mfs by auto
  then have "listed family n v mfs"
    unfolding listed_def list_ex_iff by (intro bexI[of _ ?mf]) simp_all
  moreover have "valueLine (processSeries n v) \<in> set (printFamilies mfs)"
    using mf ser printable_processSeries by (rule printed_series)
  then have "valueLine (processSeries n v) \<in> set (stdout (printMetrics (Inr mfs) st'))"
    by (simp add: printMetrics_def)
  moreover have "Handler c st = Exposition mfs"
    by (simp add: Handler_def assms(3))
  ultimately show ?thesis by blast
qed

section \<open>The concrete inputs, evaluated\<close>

lemmas model_defs =
  updateMetrics_def updateMetrics_body_def WithLabelValues_Set_def getPID_def needsUpdate_def
  Printf_def later_def Second_def init_def byte_def inRange_def

lemmas input_defs = view_def procA_def procB_def tick1_def

lemma sampledAB_state:
  "sampledAB =
     \<lparr>cpuUsage = [''a'' \<mapsto> Finite 1, ''b'' \<mapsto> Finite 1],
      memUsage = [''a'' \<mapsto> Finite 2, ''b'' \<mapsto> Finite 2],
      pidUsage = [''a'' \<mapsto> Finite 7, ''b'' \<mapsto> Finite 8],
      lastUpdate = [''a'' \<mapsto> 0, ''b'' \<mapsto> 0],
      stdout = []\<rparr>"
  by (simp add: sampledAB_def model_defs input_defs)

lemma Gather_sampledAB:
  "Gather runtime sampledAB =
     Inr [\<lparr>FName = ''Cpuinfo'',
           Metrics = [processSeries ''a'' (Finite 1), processSeries ''b'' (Finite 1)]\<rparr>,
          \<lparr>FName = ''Meminfo'',
           Metrics = [processSeries ''a'' (Finite 2), processSeries ''b'' (Finite 2)]\<rparr>,
          \<lparr>FName = ''Pidinfo'',
           Metrics = [processSeries ''a'' (Finite 7), processSeries ''b'' (Finite 8)]\<rparr>,
          goInfo, openFds]"
  by (simp add: Gather_def runtime_def sampledAB_state vecFamily_def List.map_filter_def
        sorted_list_of_set_insert_remove goInfo_def openFds_def)

lemma valid_a: "ValidString ''a''"
  by (simp add: byte_def)

lemma valid_b: "ValidString ''b''"
  by (simp add: byte_def)

lemma invalid_badName: "\<not> ValidString badName"
  by (simp add: badName_def byte_def inRange_def)

section \<open>The claims\<close>

subsection \<open>C1: what a failed sample read leaves in the store\<close>

text \<open>
  C1 as stated says that a failed sample read (process lookup, CPU read or memory read)
  leaves the cpu, mem and pid gauges and the timestamp of the name as they were before the
  tick. Two inputs show otherwise. The body stores the CPU value before it reads the
  memory: \<open>a\<close> was sampled with cpu 1 at time 0; ten seconds later its CPU read gives 5 and
  its memory read fails, and the cpu gauge holds 5. And the command line may name a process
  twice: with \<open>a\<close> listed twice, not running at its first visit (it is zeroed) and running
  at the second, where its lookup fails, the gauges of \<open>a\<close> are 0 after the tick, not
  the values from before it.
\<close>

theorem C1_counterexample:
  "sampleReadFails (memFails 5 (10 * Second) 0) (fst (getPID (memFails 5 (10 * Second) 0) ''a'')) \<and>
   cpuUsage sampledAB ''a'' = Some (Finite 1) \<and>
   cpuUsage (updateMetrics (memFails 5 (10 * Second)) [''a''] sampledAB) ''a'' = Some (Finite 5) \<and>
   sampleReadFails (restarted 1) (fst (getPID (restarted 1) ''a'')) \<and>
   memUsage sampledAB ''a'' = Some (Finite 2) \<and>
   memUsage (updateMetrics restarted [''a'', ''a''] sampledAB) ''a'' = Some (Finite 0)"
  by (simp add: sampledAB_state memFails_def restarted_def running_def lookupFails_def
        sampleReadFails_def lookupOrCPUFails_def model_defs input_defs)

text \<open>
  C1, amended. Let the pass reach the first visit of a name \<open>n\<close> (the names before it in
  the list are other names) that has a timestamp at least five seconds old and resolves
  to a pid, and let its sample read fail. After the pass the mem gauge, the pid gauge and
  the timestamp of \<open>n\<close> are those from before the pass; so is the cpu gauge when the
  process lookup or the CPU read is what failed.
\<close>

theorem C1_failed_read_keeps_mem_pid_stamp:
  assumes "updateMetrics_loop w pre st = Next s1"
    and "n \<notin> set pre"
    and "fst (getPID (w (length pre)) n) = pid" and "pid \<noteq> 0"
    and "lastUpdate st n = Some t" and "SinceClock (w (length pre)) - t \<ge> Second * 5"
    and "sampleReadFails (w (length pre)) pid"
  shows "memUsage (updateMetrics w (pre @ n # post) st) n = memUsage st n \<and>
         pidUsage (updateMetrics w (pre @ n # post) st) n = pidUsage st n \<and>
         lastUpdate (updateMetrics w (pre @ n # post) st) n = lastUpdate st n \<and>
         (lookupOrCPUFails (w (length pre)) pid \<longrightarrow>
            cpuUsage (updateMetrics w (pre @ n # post) st) n = cpuUsage st n)"
proof -
  let ?os = "w (length pre)"
  from loop_frame[OF assms(2), of w st] assms(1)
  have same: "cpuUsage s1 n = cpuUsage st n" "memUsage s1 n = memUsage st n"
    "pidUsage s1 n = pidUsage st n" "lastUpdate s1 n = lastUpdate st n"
    by simp_all
  from assms(5,6) same(4) have due: "needsUpdate (lastUpdate s1 n) (SinceClock ?os)"
    by (simp add: needsUpdate_def)
  note fails = body_read_fails[OF assms(3,4) due assms(7)]
  from fails have "aborted (updateMetrics_body ?os n s1)" by blast
  from loop_abort_at[OF assms(1) this, of post]
  have "updateMetrics w (pre @ n # post) st = final (updateMetrics_body ?os n s1)"
    by (simp add: updateMetrics_def)
  with fails same show ?thesis by simp
qed

theorem C1_failed_read_keeps_mem_pid_stamp_witness:
  "memUsage (updateMetrics (lookupFails (10 * Second)) [''a'', ''b''] sampledAB) ''a'' = Some (Finite 2) \<and>
   pidUsage (updateMetrics (lookupFails (10 * Second)) [''a'', ''b''] sampledAB) ''a'' = Some (Finite 7) \<and>
   lastUpdate (updateMetrics (lookupFails (10 * Second)) [''a'', ''b''] sampledAB) ''a'' = Some 0 \<and>
   cpuUsage (updateMetrics (lookupFails (10 * Second)) [''a'', ''b''] sampledAB) ''a'' = Some (Finite 1)"
proof -
  let ?w = "lookupFails (10 * Second)"
  have 1: "updateMetrics_loop ?w [] sampledAB = Next sampledAB" by simp
  have 2: "''a'' \<notin> set []" by simp
  have 3: "fst (getPID (?w (length [])) ''a'') = 7"
    by (simp add: lookupFails_def getPID_def input_defs)
  have 4: "(7::int) \<noteq> 0" by simp
  have 5: "lastUpdate sampledAB ''a'' = Some 0" by (simp add: sampledAB_state)
  have 6: "SinceClock (?w (length [])) - 0 \<ge> Second * 5"
    by (simp add: lookupFails_def view_def Second_def)
  have 7: "lookupOrCPUFails (?w (length [])) 7"
    by (simp add: lookupFails_def view_def lookupOrCPUFails_def)
  then have 8: "sampleReadFails (?w (length [])) 7"
    by (simp add: sampleReadFails_def)
  have 9: "cpuUsage sampledAB ''a'' = Some (Finite 1)" "memUsage sampledAB ''a'' = Some (Finite 2)"
    "pidUsage sampledAB ''a'' = Some (Finite 7)"
    by (simp_all add: sampledAB_state)
  from C1_failed_read_keeps_mem_pid_stamp[OF 1 2 3 4 5 6 8, of "[''b'']"] 7
  have "memUsage (updateMetrics ?w ([] @ ''a'' # [''b'']) sampledAB) ''a'' = memUsage sampledAB ''a''"
    and "pidUsage (updateMetrics ?w ([] @ ''a'' # [''b'']) sampledAB) ''a'' = pidUsage sampledAB ''a''"
    and "lastUpdate (updateMetrics ?w ([] @ ''a'' # [''b'']) sampledAB) ''a'' = lastUpdate sampledAB ''a''"
    and "cpuUsage (updateMetrics ?w ([] @ ''a'' # [''b'']) sampledAB) ''a'' = cpuUsage sampledAB ''a''"
    by blast+
  with 5 9 show ?thesis
    unfolding append.simps by (intro conjI) (erule trans, assumption)+
qed

subsection \<open>C2: two names, one of them not running\<close>

text \<open>
  C2 says that with two configured names, one resolving and one not, neither name keeps
  the other from being updated correctly in the same pass. Here \<open>a\<close> resolves and its
  process lookup fails, and \<open>b\<close>, sampled earlier with pid 8, is not running any more.
  With \<open>a\<close> first the pass returns before it comes to \<open>b\<close>, whose gauges keep the old
  values; with \<open>b\<close> first, or alone, they are set to 0.
\<close>

theorem C2_failed_read_blocks_next_name:
  "fst (getPID (lookupFails (10 * Second) 0) ''a'') = 7 \<and>
   NewProcess (lookupFails (10 * Second) 0) 7 = Some (Error ''gone'') \<and>
   fst (getPID (lookupFails (10 * Second) 1) ''b'') = 0 \<and>
   pidUsage (updateMetrics (lookupFails (10 * Second)) [''a'', ''b''] sampledAB) ''b'' = Some (Finite 8) \<and>
   \<not> allZero (updateMetrics (lookupFails (10 * Second)) [''a'', ''b''] sampledAB) ''b'' \<and>
   allZero (updateMetrics (lookupFails (10 * Second)) [''b'', ''a''] sampledAB) ''b'' \<and>
   allZero (updateMetrics (lookupFails (10 * Second)) [''b''] sampledAB) ''b''"
  by (simp add: sampledAB_state lookupFails_def allZero_def model_defs input_defs)

subsection \<open>C3: a failed sample read abandons the pass\<close>

text \<open>
  C3 as stated says that no update is performed for the name whose sample read fails. With
  a failing memory read the pass is abandoned, but the cpu gauge of that name has been
  written.
\<close>

theorem C3_counterexample:
  "sampleReadFails (memFails 9 (10 * Second) 0) (fst (getPID (memFails 9 (10 * Second) 0) ''a'')) \<and>
   aborted (updateMetrics_loop (memFails 9 (10 * Second)) [''a'', ''b''] sampledAB) \<and>
   cpuUsage (updateMetrics (memFails 9 (10 * Second)) [''a'', ''b''] sampledAB) ''a''
     \<noteq> cpuUsage sampledAB ''a''"
  by (simp add: sampledAB_state memFails_def sampleReadFails_def model_defs input_defs)

text \<open>
  C3, amended. When the pass has come to a name that resolves, is due and whose sample
  read fails, the pass is abandoned there: its result is that of the pass cut off after
  this name, whatever names follow; the mem and pid gauges and the timestamps are those
  the name's visit found, for every name; so are the cpu gauges of all other names, and
  the cpu gauge of this name too when the process lookup or the CPU read is what failed.
\<close>

theorem C3_failed_read_abandons_pass:
  assumes "updateMetrics_loop w pre st = Next s1"
    and "fst (getPID (w (length pre)) n) = pid" and "pid \<noteq> 0"
    and "needsUpdate (lastUpdate s1 n) (SinceClock (w (length pre)))"
    and "sampleReadFails (w (length pre)) pid"
  shows "aborted (updateMetrics_loop w (pre @ n # post) st) \<and>
         updateMetrics_loop w (pre @ n # post) st = updateMetrics_loop w (pre @ [n]) st \<and>
         memUsage (updateMetrics w (pre @ n # post) st) = memUsage s1 \<and>
         pidUsage (updateMetrics w (pre @ n # post) st) = pidUsage s1 \<and>
         lastUpdate (updateMetrics w (pre @ n # post) st) = lastUpdate s1 \<and>
         (\<forall>m. m \<noteq> n \<longrightarrow> cpuUsage (updateMetrics w (pre @ n # post) st) m = cpuUsage s1 m) \<and>
         (lookupOrCPUFails (w (length pre)) pid \<longrightarrow>
            cpuUsage (updateMetrics w (pre @ n # post) st) = cpuUsage s1) \<and>
         (lookupOrCPUFails (w (length pre)) pid \<or> ValidString n \<longrightarrow>
            \<not> panicked (updateMetrics_loop w (pre @ n # post) st))"
proof -
  let ?os = "w (length pre)"
  note fails = body_read_fails[OF assms(2-5)]
  then have ab: "aborted (updateMetrics_body ?os n s1)" by blast
  note at = loop_abort_at[OF assms(1) ab]
  have "updateMetrics w (pre @ n # post) st = final (updateMetrics_body ?os n s1)"
    by (simp add: updateMetrics_def at)
  with fails at[of post] at[of "[]"] show ?thesis by simp
qed

theorem C3_failed_read_abandons_pass_witness:
  "aborted (updateMetrics_loop (lookupFails (10 * Second)) [''b'', ''a'', ''b''] sampledAB) \<and>
   updateMetrics_loop (lookupFails (10 * Second)) [''b'', ''a'', ''b''] sampledAB =
     updateMetrics_loop (lookupFails (10 * Second)) [''b'', ''a''] sampledAB \<and>
   cpuUsage (updateMetrics (lookupFails (10 * Second)) [''b'', ''a'', ''b''] sampledAB) =
     [''a'' \<mapsto> Finite 1, ''b'' \<mapsto> Finite 0]"
proof -
  let ?w = "lookupFails (10 * Second)"
  let ?s1 = "sampledAB\<lparr>stdout := [ProcessNotFound ''b''],
                        cpuUsage := (cpuUsage sampledAB)(''b'' \<mapsto> Finite 0),
                        memUsage := (memUsage sampledAB)(''b'' \<mapsto> Finite 0),
                        pidUsage := (pidUsage sampledAB)(''b'' \<mapsto> Finite 0)\<rparr>"
  have 1: "updateMetrics_loop ?w [''b''] sampledAB = Next ?s1"
    by (simp add: sampledAB_state lookupFails_def model_defs input_defs)
  have 2: "fst (getPID (?w (length [''b''])) ''a'') = 7"
    by (simp add: lookupFails_def getPID_def input_defs)
  have 3: "(7::int) \<noteq> 0" by simp
  have 4: "needsUpdate (lastUpdate ?s1 ''a'') (SinceClock (?w (length [''b''])))"
    by (simp add: sampledAB_state lookupFails_def view_def needsUpdate_def Second_def)
  have 5: "sampleReadFails (?w (length [''b''])) 7"
    by (simp add: lookupFails_def view_def sampleReadFails_def lookupOrCPUFails_def)
  have 6: "lookupOrCPUFails (?w (length [''b''])) 7"
    by (simp add: lookupFails_def view_def lookupOrCPUFails_def)
  have 7: "cpuUsage ?s1 = [''a'' \<mapsto> Finite 1, ''b'' \<mapsto> Finite 0]"
    by (simp add: sampledAB_state)
  note c3 = C3_failed_read_abandons_pass[OF 1 2 3 4 5, of "[''b'']"]
  from c3 6 have "cpuUsage (updateMetrics ?w ([''b''] @ ''a'' # [''b'']) sampledAB) = cpuUsage ?s1"
    by blast
  from this 7 have "cpuUsage (updateMetrics ?w ([''b''] @ ''a'' # [''b'']) sampledAB) =
      [''a'' \<mapsto> Finite 1, ''b'' \<mapsto> Finite 0]"
    by (rule trans)
  moreover from c3 have "aborted (updateMetrics_loop ?w ([''b''] @ ''a'' # [''b'']) sampledAB)"
    and "updateMetrics_loop ?w ([''b''] @ ''a'' # [''b'']) sampledAB =
         updateMetrics_loop ?w ([''b''] @ [''a'']) sampledAB"
    by blast+
  ultimately show ?thesis
    unfolding append.simps by (intro conjI)
qed

subsection \<open>C4: a name that is not found is zeroed and the pass goes on\<close>

text \<open>
  C4 as stated: a name whose resolution gives pid 0 is zeroed, gets no timestamp, the pass
  goes on, and the name is sampled on the next tick where it resolves. Two inputs show
  otherwise. The zeroing leaves an older timestamp in place: \<open>a\<close>, sampled at time 0, is not
  running at 3 s and is zeroed; at 4 s it runs again and every read would answer, but its
  timestamp is 4 s old, the visit is skipped and the gauges stay 0. And for a name that is
  not valid UTF-8 the first gauge write panics: nothing is zeroed and the pass does not go
  on to \<open>b\<close>.
\<close>

theorem C4_counterexample:
  "fst (getPID (running [] (3 * Second) 0) ''a'') = 0 \<and>
   fst (getPID (running [procA] (4 * Second) 0) ''a'') = 7 \<and>
   allZero (updateMetrics (running [procA] (4 * Second)) [''a'']
              (updateMetrics (running [] (3 * Second)) [''a''] sampledAB)) ''a'' \<and>
   fst (getPID (running [] 0 0) badName) = 0 \<and>
   panicked (updateMetrics_loop (running [] 0) [badName, ''b''] init) \<and>
   \<not> allZero (updateMetrics (running [] 0) [badName, ''b''] init) badName \<and>
   cpuUsage (updateMetrics (running [] 0) [badName, ''b''] init) ''b'' = None"
  by (simp add: sampledAB_state running_def badName_def allZero_def model_defs input_defs)

text \<open>
  C4, amended. When the resolution of a configured name that is valid UTF-8 gives pid 0,
  the loop body sets the cpu, mem and pid gauges of that name to 0, writes no timestamp
  (the map \<open>lastUpdate\<close> is the one it found) and the pass goes on with the next name. At
  a later visit at which the name resolves, in any state in which its timestamp entry is
  still the one the zeroing left, it is sampled (the fresh values are stored when the reads
  answer) if it has no timestamp or its timestamp is then at least five seconds old, and
  it is skipped, the state staying as it is, if its timestamp is younger.
\<close>

theorem C4_not_found_zeroes_and_continues:
  assumes "fst (getPID (w 0) n) = 0" and "ValidString n"
  shows "let st' = st\<lparr>stdout := stdout st @ snd (getPID (w 0) n),
                       cpuUsage := (cpuUsage st)(n \<mapsto> Finite 0),
                       memUsage := (memUsage st)(n \<mapsto> Finite 0),
                       pidUsage := (pidUsage st)(n \<mapsto> Finite 0)\<rparr>
         in updateMetrics_body (w 0) n st = Next st' \<and>
            updateMetrics_loop w (n # ns) st = updateMetrics_loop (later w) ns st' \<and>
            allZero st' n \<and>
            lastUpdate st' = lastUpdate st \<and>
            (\<forall>os pid c m s.
               lastUpdate s n = lastUpdate st' n \<and>
               fst (getPID os n) = pid \<and> pid \<noteq> 0 \<and>
               (lastUpdate st n = None \<or>
                (\<exists>t. lastUpdate st n = Some t \<and> Second * 5 \<le> SinceClock os - t)) \<and>
               NewProcess os (word_of_int pid) = None \<and>
               CPUPercent os (word_of_int pid) = Inr c \<and>
               MemoryPercent os (word_of_int pid) = Inr m \<longrightarrow>
               updateMetrics_body os n s =
                 Next (s\<lparr>cpuUsage := (cpuUsage s)(n \<mapsto> c),
                          memUsage := (memUsage s)(n \<mapsto> m),
                          pidUsage := (pidUsage s)(n \<mapsto> Finite (of_int pid)),
                          lastUpdate := (lastUpdate s)(n \<mapsto> Now os)\<rparr>)) \<and>
            (\<forall>os t s.
               lastUpdate s n = lastUpdate st' n \<and>
               fst (getPID os n) \<noteq> 0 \<and> lastUpdate st n = Some t \<and>
               SinceClock os - t < Second * 5 \<longrightarrow>
               updateMetrics_body os n s = Next s)"
proof -
  define st' where "st' = st\<lparr>stdout := stdout st @ snd (getPID (w 0) n),
                       cpuUsage := (cpuUsage st)(n \<mapsto> Finite 0),
                       memUsage := (memUsage st)(n \<mapsto> Finite 0),
                       pidUsage := (pidUsage st)(n \<mapsto> Finite 0)\<rparr>"
  have body: "updateMetrics_body (w 0) n st = Next st'"
    unfolding st'_def using assms by (rule body_not_found)
  have loop: "updateMetrics_loop w (n # ns) st = updateMetrics_loop (later w) ns st'"
    using body by simp
  have zero: "allZero st' n"
    by (simp add: st'_def allZero_def)
  have stamp: "lastUpdate st' = lastUpdate st"
    by (simp add: st'_def)
  have again: "updateMetrics_body os n s =
                 Next (s\<lparr>cpuUsage := (cpuUsage s)(n \<mapsto> c),
                          memUsage := (memUsage s)(n \<mapsto> m),
                          pidUsage := (pidUsage s)(n \<mapsto> Finite (of_int pid)),
                          lastUpdate := (lastUpdate s)(n \<mapsto> Now os)\<rparr>)"
    if "lastUpdate s n = lastUpdate st' n" "fst (getPID os n) = pid" "pid \<noteq> 0"
       "lastUpdate st n = None \<or> (\<exists>t. lastUpdate st n = Some t \<and> Second * 5 \<le> SinceClock os - t)"
       "NewProcess os (word_of_int pid) = None" "CPUPercent os (word_of_int pid) = Inr c"
       "MemoryPercent os (word_of_int pid) = Inr m" for os pid c m s
  proof -
    from that(1,4) have "needsUpdate (lastUpdate s n) (SinceClock os)"
      by (auto simp: stamp needsUpdate_def)
    from body_sampled[OF that(2,3) this that(5,6) assms(2) that(7)] show ?thesis .
  qed
  have skipped: "updateMetrics_body os n s = Next s"
    if "lastUpdate s n = lastUpdate st' n" "fst (getPID os n) \<noteq> 0"
       "lastUpdate st n = Some t" "SinceClock os - t < Second * 5"
    for os t s
  proof -
    from that(1,3,4) have "\<not> needsUpdate (lastUpdate s n) (SinceClock os)"
      by (simp add: stamp needsUpdate_def)
    with that(2) show ?thesis by (rule body_fresh)
  qed
  from body loop zero stamp again skipped show ?thesis
    unfolding st'_def[symmetric] Let_def by blast
qed

theorem C4_not_found_zeroes_and_continues_witness:
  "allZero (updateMetrics (running [] (10 * Second)) [''a''] sampledAB) ''a'' \<and>
   lastUpdate (updateMetrics (running [] (10 * Second)) [''a''] sampledAB) ''a'' = Some 0 \<and>
   cpuUsage (updateMetrics (running [procA] (15 * Second)) [''a'']
      (updateMetrics (running [] (10 * Second)) [''a''] sampledAB)) ''a'' = Some (Finite 3) \<and>
   allZero (updateMetrics (running [procA] (4 * Second)) [''a'']
      (updateMetrics (running [] (10 * Second)) [''a''] sampledAB)) ''a''"
proof -
  let ?w = "running [] (10 * Second)"
  let ?st' = "sampledAB\<lparr>stdout := stdout sampledAB @ snd (getPID (?w 0) ''a''),
           cpuUsage := (cpuUsage sampledAB)(''a'' \<mapsto> Finite 0),
           memUsage := (memUsage sampledAB)(''a'' \<mapsto> Finite 0),
           pidUsage := (pidUsage sampledAB)(''a'' \<mapsto> Finite 0)\<rparr>"
  have nf: "fst (getPID (?w 0) ''a'') = 0"
    by (simp add: getPID_def running_def input_defs)
  note c4 = C4_not_found_zeroes_and_continues[where w="?w" and n="''a''" and st=sampledAB
      and ns="[]", OF nf valid_a, unfolded Let_def]
  from c4 have pass: "updateMetrics ?w [''a''] sampledAB = ?st'"
    by (simp add: updateMetrics_def)
  from c4 have zero: "allZero ?st' ''a''" and stamp: "lastUpdate ?st' = lastUpdate sampledAB"
    by blast+
  from c4 have again: "lastUpdate s ''a'' = lastUpdate ?st' ''a'' \<and>
               fst (getPID os ''a'') = pid \<and> pid \<noteq> 0 \<and>
               (lastUpdate sampledAB ''a'' = None \<or>
                (\<exists>t. lastUpdate sampledAB ''a'' = Some t \<and> Second * 5 \<le> SinceClock os - t)) \<and>
               NewProcess os (word_of_int pid) = None \<and>
               CPUPercent os (word_of_int pid) = Inr c \<and>
               MemoryPercent os (word_of_int pid) = Inr m \<longrightarrow>
               updateMetrics_body os ''a'' s =
                 Next (s\<lparr>cpuUsage := (cpuUsage s)(''a'' \<mapsto> c),
                          memUsage := (memUsage s)(''a'' \<mapsto> m),
                          pidUsage := (pidUsage s)(''a'' \<mapsto> Finite (of_int pid)),
                          lastUpdate := (lastUpdate s)(''a'' \<mapsto> Now os)\<rparr>)" for os pid c m s
    by blast
  from c4 have skipped: "lastUpdate s ''a'' = lastUpdate ?st' ''a'' \<and>
               fst (getPID os ''a'') \<noteq> 0 \<and> lastUpdate sampledAB ''a'' = Some t \<and>
               SinceClock os - t < Second * 5 \<longrightarrow>
               updateMetrics_body os ''a'' s = Next s" for os t s
    by blast
  let ?w15 = "running [procA] (15 * Second)"
  have "updateMetrics_body (?w15 0) ''a'' ?st' =
                 Next (?st'\<lparr>cpuUsage := (cpuUsage ?st')(''a'' \<mapsto> Finite 3),
                           memUsage := (memUsage ?st')(''a'' \<mapsto> Finite 4),
                           pidUsage := (pidUsage ?st')(''a'' \<mapsto> Finite (of_int 7)),
                           lastUpdate := (lastUpdate ?st')(''a'' \<mapsto> Now (?w15 0))\<rparr>)"
    by (rule again[rule_format])
       (simp add: getPID_def running_def input_defs sampledAB_state Second_def)
  then have fresh: "cpuUsage (updateMetrics ?w15 [''a''] ?st') ''a'' = Some (Finite 3)"
    by (simp add: updateMetrics_def)
  let ?w4 = "running [procA] (4 * Second)"
  have "updateMetrics_body (?w4 0) ''a'' ?st' = Next ?st'"
    by (rule skipped[rule_format, where t=0])
       (simp add: getPID_def running_def input_defs sampledAB_state Second_def)
  then have "updateMetrics ?w4 [''a''] ?st' = ?st'"
    by (simp add: updateMetrics_def)
  with zero have still: "allZero (updateMetrics ?w4 [''a''] ?st') ''a''" by simp
  from stamp have "lastUpdate ?st' ''a'' = Some 0" by (simp add: sampledAB_state)
  with zero fresh still show ?thesis
    unfolding pass by (intro conjI)
qed

subsection \<open>C5: a name sampled less than five seconds ago is skipped\<close>

text \<open>
  C5. A configured name that resolves to a pid and whose recorded timestamp is less than
  the interval of 5 seconds in the past is not sampled: the loop body hands the state on
  exactly as it found it (the three gauges of the name, its timestamp, every other entry
  and the console output), whatever the readers of the operating system would answer, and
  the pass goes on with the next name.
\<close>

theorem C5_fresh_name_is_skipped:
  assumes "fst (getPID (w 0) n) \<noteq> 0"
    and "lastUpdate st n = Some t"
    and "SinceClock (w 0) - t < Second * 5"
  shows "updateMetrics_body (w 0) n st = Next st \<and>
         updateMetrics_loop w (n # ns) st = updateMetrics_loop (later w) ns st"
proof -
  from assms(2,3) have "\<not> needsUpdate (lastUpdate st n) (SinceClock (w 0))"
    by (simp add: needsUpdate_def)
  with assms(1) have "updateMetrics_body (w 0) n st = Next st"
    by (rule body_fresh)
  then show ?thesis by simp
qed

theorem C5_fresh_name_is_skipped_witness:
  "updateMetrics_loop (\<lambda>_. view [procA] (Some (Error ''gone'')) (Inl (Error ''gone''))
      (Inl (Error ''gone'')) (3 * Second)) [''a''] sampledAB = Next sampledAB"
proof -
  let ?w = "\<lambda>_::nat. view [procA] (Some (Error ''gone'')) (Inl (Error ''gone''))
      (Inl (Error ''gone'')) (3 * Second)"
  have 1: "fst (getPID (?w 0) ''a'') \<noteq> 0"
    by (simp add: getPID_def input_defs)
  have 2: "lastUpdate sampledAB ''a'' = Some 0"
    by (simp add: sampledAB_state)
  have 3: "SinceClock (?w 0) - 0 < Second * 5"
    by (simp add: view_def Second_def)
  from C5_fresh_name_is_skipped[OF 1 2 3, of "[]"] show ?thesis by simp
qed

subsection \<open>C6: a process that vanished before the sample read\<close>

text \<open>
  C6 as stated says that the gauges of a name whose process went away between resolution
  and sampling fall back to 0. The body prints the error and returns; the gauges keep
  their values. Here \<open>a\<close> (pid 7) is still listed but \<^verbatim>\<open>NewProcess\<close> fails.
\<close>

theorem C6_counterexample:
  "fst (getPID (lookupFails (10 * Second) 0) ''a'') = 7 \<and>
   NewProcess (lookupFails (10 * Second) 0) 7 = Some (Error ''gone'') \<and>
   pidUsage (updateMetrics (lookupFails (10 * Second)) [''a''] sampledAB) ''a'' = Some (Finite 7) \<and>
   \<not> allZero (updateMetrics (lookupFails (10 * Second)) [''a''] sampledAB) ''a''"
  by (simp add: sampledAB_state lookupFails_def allZero_def model_defs input_defs)

text \<open>
  C6, amended. When a name resolves and is due and its sample read fails, the body does
  not crash: it prints one error line and returns. The mem and pid gauges and the
  timestamps are those it found (and the cpu gauges too when the process lookup or the CPU
  read is what failed); in particular a name with a non-zero pid gauge is not zeroed. The
  read that fails is one the body makes: the process lookup or the CPU read, or else the
  memory read, which comes after the cpu gauge of the name was written and so is only
  reached for a name that is valid UTF-8.
\<close>

theorem C6_failed_read_is_reported_not_zeroed:
  assumes "fst (getPID os n) = pid" and "pid \<noteq> 0"
    and "needsUpdate (lastUpdate st n) (SinceClock os)"
    and "sampleReadFails os pid"
    and "lookupOrCPUFails os pid \<or> ValidString n"
  shows "\<exists>st' err.
           updateMetrics_body os n st = Return st' \<and>
           (stdout st' = stdout st @ [ErrorGettingProcess err] \<or>
            stdout st' = stdout st @ [ErrorGettingCPUPercent err] \<or>
            stdout st' = stdout st @ [ErrorGettingMemPercent err]) \<and>
           memUsage st' = memUsage st \<and>
           pidUsage st' = pidUsage st \<and>
           lastUpdate st' = lastUpdate st \<and>
           (lookupOrCPUFails os pid \<longrightarrow> cpuUsage st' = cpuUsage st) \<and>
           (pidUsage st n \<noteq> Some (Finite 0) \<longrightarrow> \<not> allZero st' n)"
proof -
  note fails = body_read_fails[OF assms(1-4)]
  from body_read_fails_log[OF assms] obtain st' err where
    ret: "updateMetrics_body os n st = Return st'"
    and log: "stdout st' = stdout st @ [ErrorGettingProcess err] \<or>
              stdout st' = stdout st @ [ErrorGettingCPUPercent err] \<or>
              stdout st' = stdout st @ [ErrorGettingMemPercent err]"
    by blast
  from fails ret have same: "memUsage st' = memUsage st" "pidUsage st' = pidUsage st"
    "lastUpdate st' = lastUpdate st" "lookupOrCPUFails os pid \<longrightarrow> cpuUsage st' = cpuUsage st"
    by simp_all
  then have "pidUsage st n \<noteq> Some (Finite 0) \<longrightarrow> \<not> allZero st' n"
    by (simp add: allZero_def)
  with ret log same show ?thesis by blast
qed

theorem C6_failed_read_is_reported_not_zeroed_witness:
  "aborted (updateMetrics_body (lookupFails (10 * Second) 0) ''a'' sampledAB) \<and>
   \<not> allZero (final (updateMetrics_body (lookupFails (10 * Second) 0) ''a'' sampledAB)) ''a'' \<and>
   cpuUsage (final (updateMetrics_body (lookupFails (10 * Second) 0) ''a'' sampledAB)) =
     cpuUsage sampledAB"
proof -
  let ?os = "lookupFails (10 * Second) 0"
  have 1: "fst (getPID ?os ''a'') = 7"
    by (simp add: lookupFails_def getPID_def input_defs)
  have 2: "(7::int) \<noteq> 0" by simp
  have 3: "needsUpdate (lastUpdate sampledAB ''a'') (SinceClock ?os)"
    by (simp add: sampledAB_state lookupFails_def view_def needsUpdate_def Second_def)
  have 4: "lookupOrCPUFails ?os 7"
    by (simp add: lookupFails_def view_def lookupOrCPUFails_def)
  then have 5: "sampleReadFails ?os 7"
    by (simp add: sampleReadFails_def)
  from 4 have 6: "lookupOrCPUFails ?os 7 \<or> ValidString ''a''" by simp
  have 7: "pidUsage sampledAB ''a'' \<noteq> Some (Finite 0)"
    by (simp add: sampledAB_state)
  from C6_failed_read_is_reported_not_zeroed[OF 1 2 3 5 6] 4 7
  obtain st' where "updateMetrics_body ?os ''a'' sampledAB = Return st'" "\<not> allZero st' ''a''"
    "cpuUsage st' = cpuUsage sampledAB"
    by blast
  then show ?thesis by simp
qed

subsection \<open>C7: the enumeration of the processes fails\<close>

text \<open>
  C7 as stated: on a tick on which enumerating the processes fails, every configured name
  is treated as not found and zeroed, and the failure is not fatal. \<^verbatim>\<open>getPID\<close>
  enumerates the processes anew for every name, so a tick has as many enumerations as
  names: when the one for \<open>a\<close> fails and the one for \<open>b\<close> answers, \<open>b\<close> is sampled and
  stamped, not zeroed. And zeroing a name that is not valid UTF-8 panics.
\<close>

theorem C7_counterexample:
  "isl (Processes (enumFailsOnce 0)) \<and>
   allZero (updateMetrics enumFailsOnce [''a'', ''b''] init) ''a'' \<and>
   pidUsage (updateMetrics enumFailsOnce [''a'', ''b''] init) ''b'' = Some (Finite 8) \<and>
   lastUpdate (updateMetrics enumFailsOnce [''a'', ''b''] init) ''b'' = Some (10 * Second) \<and>
   \<not> allZero (updateMetrics enumFailsOnce [''a'', ''b''] init) ''b'' \<and>
   isl (Processes (enumFails 0)) \<and>
   panicked (updateMetrics_loop enumFails [badName] init)"
  by (simp add: enumFailsOnce_def enumFails_def running_def badName_def allZero_def
        model_defs input_defs)

text \<open>
  C7, amended. On a tick on which every enumeration of the processes fails (there is one
  for each configured name) and whose configured names are valid UTF-8, every resolution
  gives pid 0 and prints the error; the pass is not abandoned; it sets the three gauges of
  every configured name to 0, leaves the gauges of all other names and every timestamp as
  they were (so nothing of the failure is carried into the next tick) and prints one error
  line per configured name.
\<close>

theorem C7_enumeration_failure_zeroes_every_name:
  assumes "length errs = length ns"
    and "\<forall>i<length ns. Processes (w i) = Inl (errs ! i)"
    and "\<forall>n\<in>set ns. ValidString n"
  shows "(\<forall>i<length ns. \<forall>name. getPID (w i) name = (0, [ErrorGettingProcesses (errs ! i)])) \<and>
         \<not> aborted (updateMetrics_loop w ns st) \<and>
         (\<forall>n\<in>set ns. allZero (updateMetrics w ns st) n) \<and>
         (\<forall>n. n \<notin> set ns \<longrightarrow>
              cpuUsage (updateMetrics w ns st) n = cpuUsage st n \<and>
              memUsage (updateMetrics w ns st) n = memUsage st n \<and>
              pidUsage (updateMetrics w ns st) n = pidUsage st n) \<and>
         lastUpdate (updateMetrics w ns st) = lastUpdate st \<and>
         stdout (updateMetrics w ns st) = stdout st @ map ErrorGettingProcesses errs"
proof -
  from loop_enum_fails[OF assms, of st] obtain st' where
    loop: "updateMetrics_loop w ns st = Next st'"
    and rest: "lastUpdate st' = lastUpdate st"
      "stdout st' = stdout st @ map ErrorGettingProcesses errs"
      "\<forall>n\<in>set ns. allZero st' n"
    by blast
  from loop have fin: "updateMetrics w ns st = st'" by (simp add: updateMetrics_def)
  have frame: "\<forall>n. n \<notin> set ns \<longrightarrow>
              cpuUsage (updateMetrics w ns st) n = cpuUsage st n \<and>
              memUsage (updateMetrics w ns st) n = memUsage st n \<and>
              pidUsage (updateMetrics w ns st) n = pidUsage st n"
    using loop_frame[of _ ns w st] by (simp add: updateMetrics_def)
  from assms(2) have "\<forall>i<length ns. \<forall>name. getPID (w i) name = (0, [ErrorGettingProcesses (errs ! i)])"
    by (simp add: getPID_def)
  with loop rest frame show ?thesis unfolding fin by simp
qed

theorem C7_enumeration_failure_zeroes_every_name_witness:
  "allZero (updateMetrics enumFails [''a'', ''b''] sampledAB) ''a'' \<and>
   allZero (updateMetrics enumFails [''a'', ''b''] sampledAB) ''b'' \<and>
   lastUpdate (updateMetrics enumFails [''a'', ''b''] sampledAB) = [''a'' \<mapsto> 0, ''b'' \<mapsto> 0] \<and>
   stdout (updateMetrics enumFails [''a'', ''b''] sampledAB) =
     [ErrorGettingProcesses (Error ''EMFILE''), ErrorGettingProcesses (Error ''EMFILE'')]"
proof -
  let ?errs = "[Error ''EMFILE'', Error ''EMFILE'']"
  have 1: "length ?errs = length [''a'', ''b'']" by simp
  have 2: "\<forall>i<length [''a'', ''b'']. Processes (enumFails i) = Inl (?errs ! i)"
    by (simp add: enumFails_def nth_Cons split: nat.split)
  have 3: "\<forall>n\<in>set [''a'', ''b'']. ValidString n"
    by (simp add: byte_def)
  from C7_enumeration_failure_zeroes_every_name[OF 1 2 3, of sampledAB]
  have "\<forall>n\<in>set [''a'', ''b'']. allZero (updateMetrics enumFails [''a'', ''b''] sampledAB) n"
    and "lastUpdate (updateMetrics enumFails [''a'', ''b''] sampledAB) = lastUpdate sampledAB"
    and "stdout (updateMetrics enumFails [''a'', ''b''] sampledAB) =
           stdout sampledAB @ map ErrorGettingProcesses ?errs"
    by blast+
  then show ?thesis by (simp add: sampledAB_state)
qed

subsection \<open>C8: which names have entries after a pass\<close>

text \<open>
  C8 as stated gives every configured name its three entries once the first pass is
  over, with the value 0 in all three as long as the name has not been sampled
  successfully. An entry is only created by the zeroing of a name that is not found or by
  a gauge write of a sample: the first pass over a name that resolves and whose process
  lookup fails creates none. And a sample writes the cpu gauge before it reads the memory:
  \<open>a\<close>, zeroed by a first pass, resolves in the second, its CPU read gives 5 and its
  memory read fails; it still has no timestamp and its cpu gauge is 5.
\<close>

theorem C8_counterexample:
  "fst (getPID (lookupFails 0 0) ''a'') = 7 \<and>
   cpuUsage (run [''a''] [UpdateTick (lookupFails 0)] init) ''a'' = None \<and>
   \<not> hasEntries (run [''a''] [UpdateTick (lookupFails 0)] init) ''a'' \<and>
   \<not> aborted (updateMetrics_loop (running [] 0) [''a''] init) \<and>
   lastUpdate (run [''a''] [UpdateTick (running [] 0), UpdateTick (memFails 5 (10 * Second))] init)
     ''a'' = None \<and>
   cpuUsage (run [''a''] [UpdateTick (running [] 0), UpdateTick (memFails 5 (10 * Second))] init)
     ''a'' = Some (Finite 5)"
  by (simp add: lookupFails_def running_def memFails_def hasEntries_def model_defs input_defs)

text \<open>
  C8, amended. Take any state the program can reach from its start, and a pass from it
  that runs through all configured names (no sample read fails). From then on, at every
  later tick, every configured name has its three entries; as long as it has no timestamp
  (it was never sampled successfully) its mem and pid values are 0, and its cpu value is 0
  too unless, since that pass, a memory read of the name failed after its CPU read had
  answered. And whenever the last visit of a name that is valid UTF-8 is reached in a pass
  and finds it not running, its three values are 0 after that pass.
\<close>

theorem C8_entries_after_unaborted_pass:
  assumes "updateMetrics_loop w ns (run ns ts init) = Next st'"
    and "n \<in> set ns"
  shows "hasEntries (run ns ts' st') n \<and>
         (lastUpdate (run ns ts' st') n = None \<longrightarrow>
            memUsage (run ns ts' st') n = Some (Finite 0) \<and>
            pidUsage (run ns ts' st') n = Some (Finite 0)) \<and>
         (lastUpdate (run ns ts' st') n = None \<and>
          (\<forall>w' i. UpdateTick w' \<in> set ts' \<and> i < length ns \<and> ns ! i = n \<longrightarrow>
                    \<not> cpuThenMemFails (w' i) n) \<longrightarrow>
            cpuUsage (run ns ts' st') n = Some (Finite 0)) \<and>
         (\<forall>w' pre post s1.
            ns = pre @ n # post \<and> n \<notin> set post \<and> ValidString n \<and>
            updateMetrics_loop w' pre (run ns ts' st') = Next s1 \<and>
            fst (getPID (w' (length pre)) n) = 0 \<longrightarrow>
            allZero (updateMetrics w' ns (run ns ts' st')) n)"
proof -
  note inv = run_stamped[OF init_stamped, of ns ts]
  from loop_complete_entries[OF inv assms] have e: "hasEntries st' n" .
  with run_keeps[of st' n ns ts'] have entries: "hasEntries (run ns ts' st') n"
    by (simp add: hasEntries_def)
  note z = loop_complete_unstamped[OF assms]
  have mem_pid: "lastUpdate (run ns ts' st') n = None \<longrightarrow>
            memUsage (run ns ts' st') n = Some (Finite 0) \<and>
            pidUsage (run ns ts' st') n = Some (Finite 0)"
    by (rule run_unstamped_mem_pid) (use z in \<open>auto simp: allZero_def\<close>)
  have cpu: "lastUpdate (run ns ts' st') n = None \<longrightarrow>
             cpuUsage (run ns ts' st') n = Some (Finite 0)"
    if "\<forall>w' i. UpdateTick w' \<in> set ts' \<and> i < length ns \<and> ns ! i = n \<longrightarrow>
                    \<not> cpuThenMemFails (w' i) n"
    by (rule run_unstamped_cpu[OF _ that]) (use z in \<open>auto simp: allZero_def\<close>)
  have last: "allZero (updateMetrics w' ns (run ns ts' st')) n"
    if "ns = pre @ n # post" "n \<notin> set post" "ValidString n"
       "updateMetrics_loop w' pre (run ns ts' st') = Next s1"
       "fst (getPID (w' (length pre)) n) = 0" for w' pre post s1
    using loop_last_not_found[OF that(4,5,3,2)] that(1) by (simp add: updateMetrics_def)
  from entries mem_pid cpu last show ?thesis by blast
qed

theorem C8_entries_after_unaborted_pass_witness:
  "hasEntries (run [''a'', ''b''] [UpdateTick (lookupFails (10 * Second))]
                 (updateMetrics onlyA [''a'', ''b''] init)) ''b'' \<and>
   memUsage (run [''a'', ''b''] [UpdateTick (lookupFails (10 * Second))]
                 (updateMetrics onlyA [''a'', ''b''] init)) ''b'' = Some (Finite 0) \<and>
   pidUsage (run [''a'', ''b''] [UpdateTick (lookupFails (10 * Second))]
                 (updateMetrics onlyA [''a'', ''b''] init)) ''b'' = Some (Finite 0) \<and>
   cpuUsage (run [''a'', ''b''] [UpdateTick (lookupFails (10 * Second))]
                 (updateMetrics onlyA [''a'', ''b''] init)) ''b'' = Some (Finite 0)"
proof -
  let ?ns = "[''a'', ''b'']"
  let ?st' = "updateMetrics onlyA ?ns init"
  let ?ts' = "[UpdateTick (lookupFails (10 * Second))]"
  have 1: "updateMetrics_loop onlyA ?ns (run ?ns [] init) = Next ?st'"
    by (simp add: onlyA_def model_defs input_defs)
  have 2: "''b'' \<in> set ?ns" by simp
  have 3: "lastUpdate (run ?ns ?ts' ?st') ''b'' = None"
    by (simp add: onlyA_def lookupFails_def model_defs input_defs)
  have 4: "\<forall>w' i. UpdateTick w' \<in> set ?ts' \<and> i < length ?ns \<and> ?ns ! i = ''b'' \<longrightarrow>
                    \<not> cpuThenMemFails (w' i) ''b''"
    by (auto simp: lookupFails_def cpuThenMemFails_def getPID_def input_defs)
  from C8_entries_after_unaborted_pass[OF 1 2, of ?ts'] 3 4
  show ?thesis by blast
qed

subsection \<open>C9: what the Reporter prints\<close>

text \<open>
  C9 as stated: every gathered series outside the \<^verbatim>\<open>go_\<close> namespace is printed, those
  inside are not, and a separator line follows. The test of \<^verbatim>\<open>printMetrics\<close> is on the
  name of the first label of a series, not on the name of its family: the series of
  \<^verbatim>\<open>go_info\<close>, whose label is \<^verbatim>\<open>version\<close>, is printed, and the series of
  \<^verbatim>\<open>process_open_fds\<close>, which has no label, is not. When gathering fails only the error
  is printed, without a separator.
\<close>

theorem C9_counterexample:
  "stdout (printMetrics (Inr [goInfo, openFds]) init) =
     [MetricValue \<lparr>Label = [\<lparr>LName = ''version'', LValue = ''go1.21.0''\<rparr>], Gauge = Some (Finite 1)\<rparr>
        (Finite 1),
      Separator] \<and>
   stdout (printMetrics (Inl (Error ''collect'')) init) = [ErrorGatheringMetrics (Error ''collect'')]"
  by (simp add: printMetrics_def goInfo_def openFds_def init_def HasPrefix_def GetValue_def
        Printf_def)

text \<open>
  C9, amended. When gathering succeeds the Reporter prints, in the order gathered, one
  line with the series and its gauge value for each gathered series that has at least one
  label and whose first label's name does not begin with \<^verbatim>\<open>go_\<close>, and then one
  separator line. When gathering fails it prints the error line alone.
\<close>

theorem C9_report_prints_labelled_series:
  "printMetrics (Inr mfs) st =
     st\<lparr>stdout := stdout st @
           map valueLine (filter printable (concat (map Metrics mfs))) @ [Separator]\<rparr> \<and>
   printMetrics (Inl err) st = st\<lparr>stdout := stdout st @ [ErrorGatheringMetrics err]\<rparr>"
  by (simp add: printMetrics_def printFamilies_filter Printf_def)

subsection \<open>C10: entries are never removed\<close>

text \<open>
  C10. Take a state the program has reached, and an entry \<open>n\<close> that one of the three
  gauge vectors has there. At every later moment, after any further update passes and
  Reporter ticks and after any number of visits of a pass under way (the handler of
  \<^verbatim>\<open>/metrics\<close> does not wait for the mutex), the vector still has the entry, and every
  snapshot that \<^verbatim>\<open>Gather\<close> returns then shows it: the snapshot lists the series of the
  entry, with its current value, in the family of the vector; the Reporter, given this
  snapshot, prints the line of that series; and the handler answers with this snapshot.
\<close>

theorem C10_entries_are_never_removed:
  "let s0 = run ns ts init;
       s = final (updateMetrics_loop w (take k ns) (run ns ts' s0))
   in (cpuUsage s0 n \<noteq> None \<longrightarrow>
         (\<exists>v. cpuUsage s n = Some v \<and>
              (\<forall>mfs. Gather c s = Inr mfs \<longrightarrow>
                 listed ''Cpuinfo'' n v mfs \<and>
                 valueLine (processSeries n v) \<in> set (stdout (printMetrics (Gather c s) s)) \<and>
                 Handler c s = Exposition mfs))) \<and>
      (memUsage s0 n \<noteq> None \<longrightarrow>
         (\<exists>v. memUsage s n = Some v \<and>
              (\<forall>mfs. Gather c s = Inr mfs \<longrightarrow>
                 listed ''Meminfo'' n v mfs \<and>
                 valueLine (processSeries n v) \<in> set (stdout (printMetrics (Gather c s) s)) \<and>
                 Handler c s = Exposition mfs))) \<and>
      (pidUsage s0 n \<noteq> None \<longrightarrow>
         (\<exists>v. pidUsage s n = Some v \<and>
              (\<forall>mfs. Gather c s = Inr mfs \<longrightarrow>
                 listed ''Pidinfo'' n v mfs \<and>
                 valueLine (processSeries n v) \<in> set (stdout (printMetrics (Gather c s) s)) \<and>
                 Handler c s = Exposition mfs)))"
proof -
  define s0 where "s0 = run ns ts init"
  define s1 where "s1 = run ns ts' s0"
  define s where "s = final (updateMetrics_loop w (take k ns) s1)"
  let ?fin = "\<lambda>s. finite (dom (cpuUsage s)) \<and> finite (dom (memUsage s)) \<and>
                  finite (dom (pidUsage s))"
  have "?fin s0" unfolding s0_def by (rule run_finite)
  then have "?fin s1" unfolding s1_def
    by (rule run_preserves[where P="?fin", rotated 2])
       (use body_finite in \<open>auto simp: printMetrics_store\<close>)
  then have fin: "?fin s" unfolding s_def
    by (rule loop_preserves[where P="?fin", rotated]) (use body_finite in blast)
  note k1 = run_keeps[of s0 n ns ts', folded s1_def]
  note k2 = loop_keeps[of s1 n w "take k ns", folded s_def]
  have cpu: "\<exists>v. cpuUsage s n = Some v \<and>
              (\<forall>mfs. Gather c s = Inr mfs \<longrightarrow>
                 listed ''Cpuinfo'' n v mfs \<and>
                 valueLine (processSeries n v) \<in> set (stdout (printMetrics (Gather c s) s)) \<and>
                 Handler c s = Exposition mfs)"
    if "cpuUsage s0 n \<noteq> None"
  proof -
    from that k1 k2 obtain v where v: "cpuUsage s n = Some v" by auto
    with fin snapshot_lists[of "cpuUsage s" n v c s _ "''Cpuinfo''" s] show ?thesis by auto
  qed
  have mem: "\<exists>v. memUsage s n = Some v \<and>
              (\<forall>mfs. Gather c s = Inr mfs \<longrightarrow>
                 listed ''Meminfo'' n v mfs \<and>
                 valueLine (processSeries n v) \<in> set (stdout (printMetrics (Gather c s) s)) \<and>
                 Handler c s = Exposition mfs)"
    if "memUsage s0 n \<noteq> None"
  proof -
    from that k1 k2 obtain v where v: "memUsage s n = Some v" by auto
    with fin snapshot_lists[of "memUsage s" n v c s _ "''Meminfo''" s] show ?thesis by auto
  qed
  have pid: "\<exists>v. pidUsage s n = Some v \<and>
              (\<forall>mfs. Gather c s = Inr mfs \<longrightarrow>
                 listed ''Pidinfo'' n v mfs \<and>
                 valueLine (processSeries n v) \<in> set (stdout (printMetrics (Gather c s) s)) \<and>
                 Handler c s = Exposition mfs)"
    if "pidUsage s0 n \<noteq> None"
  proof -
    from that k1 k2 obtain v where v: "pidUsage s n = Some v" by auto
    with fin snapshot_lists[of "pidUsage s" n v c s _ "''Pidinfo''" s] show ?thesis by auto
  qed
  from cpu mem pid show ?thesis
    unfolding Let_def by (simp add: s_def s1_def s0_def)
qed

theorem C10_entries_are_never_removed_witness:
  "cpuUsage (final (updateMetrics_loop enumFails (take 1 [''a'', ''b''])
       (run [''a'', ''b''] [UpdateTick (lookupFails (10 * Second)), ReportTick runtime]
          (run [''a'', ''b''] [UpdateTick tick1] init)))) ''b'' = Some (Finite 1) \<and>
   listed ''Cpuinfo'' ''b'' (Finite 1)
     (projr (Gather runtime (final (updateMetrics_loop enumFails (take 1 [''a'', ''b''])
       (run [''a'', ''b''] [UpdateTick (lookupFails (10 * Second)), ReportTick runtime]
          (run [''a'', ''b''] [UpdateTick tick1] init))))))"
proof -
  let ?s = "final (updateMetrics_loop enumFails (take 1 [''a'', ''b''])
       (run [''a'', ''b''] [UpdateTick (lookupFails (10 * Second)), ReportTick runtime]
          (run [''a'', ''b''] [UpdateTick tick1] init)))"
  have 1: "cpuUsage (run [''a'', ''b''] [UpdateTick tick1] init) ''b'' \<noteq> None"
    by (simp add: model_defs input_defs)
  have 2: "Gather runtime ?s = Inr (projr (Gather runtime ?s))"
    by (simp add: Gather_def runtime_def)
  have 3: "cpuUsage ?s ''b'' = Some (Finite 1)"
    by (simp add: enumFails_def lookupFails_def runtime_def printMetrics_def Gather_def
          model_defs input_defs)
  from C10_entries_are_never_removed[of "[''a'', ''b'']" "[UpdateTick tick1]" enumFails 1
      "[UpdateTick (lookupFails (10 * Second)), ReportTick runtime]" "''b''" runtime,
      unfolded Let_def] 1 2 3
  have "listed ''Cpuinfo'' ''b'' (Finite 1) (projr (Gather runtime ?s))"
    by (metis option.inject)
  with 3 show ?thesis by (intro conjI)
qed

end
